theory Spec2Isabelle
  imports Main "HOL-Library.AList"
begin

section \<open>Common values and errors\<close>

text \<open>
  Python values that travel through the session and the fake client are JSON-like.
  A dict is an association list in insertion order; \<open>AList.update\<close> is Python's item
  assignment (an existing key keeps its place, a new key goes to the end).
\<close>

datatype pyval = PNone | PBool bool | PInt int | PStr string | PList "pyval list"

type_synonym pydict = "(string \<times> pyval) list"

text \<open>
  Exceptions are values. \<open>ValueError\<close> is what the validators of the options class raise;
  pydantic turns the \<open>ValueError\<close>s of one validation run into one \<open>ValidationError\<close>
  (the specification's \<open>InvalidOption\<close>). \<open>RuntimeError\<close> is raised by the session guard
  (the specification's \<open>SessionClosed\<close>). \<open>AttributeError\<close> names the attribute that the
  object does not have. \<open>RequestsApiError\<close> carries its status code. \<open>ServiceError\<close>
  stands for whatever the remote service raises.
\<close>

datatype error =
    ValueError string
  | ValidationError "string list"
  | RuntimeError string
  | AttributeError string
  | KeyError string
  | TypeError string
  | RequestsApiError string nat
  | ServiceError string

section \<open>Estimator options (options/estimator\_options.py)\<close>

text \<open>
  \<open>Union[UnsetType, T]\<close>: a leaf is either the \<open>Unset\<close> sentinel or a concrete value.
\<close>

datatype 'a config = Unset | Value 'a

datatype DDSequenceType = XX | XpXm | XY4

text \<open>
  Modelled from the spec: the \<open>simulator\<close> group is inherited from \<open>OptionsV2\<close>, which is
  not among the source files. The only leaf the estimator options read is
  \<open>coupling_map\<close>, which is \<open>Unset\<close> until a coupling map (a list of qubit pairs) is set.
\<close>

record SimulatorOptions =
  coupling_map :: "int list list config"

text \<open>
  The fields the class declares, and \<open>simulator\<close>. In a pydantic dataclass the
  underscore names \<open>_version\<close> and \<open>_is_simulator\<close> are fields like the others. The groups
  \<open>transpilation\<close>, \<open>resilience\<close>, \<open>execution\<close>, \<open>twirling\<close> and \<open>experimental\<close> are read
  by no validator of the class; they live in the record's extension slot.
\<close>

record EstimatorOptions =
  version :: int
  is_simulator :: bool
  optimization_level :: "int config"
  resilience_level :: "int config"
  dynamical_decoupling :: "DDSequenceType config"
  simulator :: SimulatorOptions

definition MAX_OPTIMIZATION_LEVEL :: int where
  "MAX_OPTIMIZATION_LEVEL = 3"

definition MAX_RESILIENCE_LEVEL :: int where
  "MAX_RESILIENCE_LEVEL = 3"

text \<open>
  Both messages end in the class constant, which the f-string prints as \<open>3\<close>. The message of
  the resilience validator names \<open>optimization_level\<close>, as the source does.
\<close>

definition level_range_msg :: string where
  "level_range_msg = ''Invalid optimization_level. Valid range is 0-3''"

definition coupling_map_msg :: string where
  "coupling_map_msg =
     ''When the backend is a simulator and resilience_level == 3,'' @
     ''a coupling map is required.''"

text \<open>
  Modelled from the spec: \<open>skip_unset_validation\<close> comes from \<open>options/utils.py\<close>, which is
  not among the source files. A validator never runs against \<open>Unset\<close>: the decorated
  validator returns \<open>Unset\<close> as it is and calls the function only on a concrete value.
\<close>

definition skip_unset_validation :: "('a \<Rightarrow> error + 'a) \<Rightarrow> 'a config \<Rightarrow> error + 'a config" where
  "skip_unset_validation func val =
     (case val of
        Unset \<Rightarrow> Inr Unset
      | Value v \<Rightarrow> (case func v of Inl e \<Rightarrow> Inl e | Inr v' \<Rightarrow> Inr (Value v')))"

definition validate_optimization_level_body :: "int \<Rightarrow> error + int" where
  "validate_optimization_level_body level =
     (if \<not> (0 \<le> level \<and> level \<le> 3)
      then Inl (ValueError level_range_msg)
      else Inr level)"

definition validate_optimization_level :: "int config \<Rightarrow> error + int config" where
  "validate_optimization_level = skip_unset_validation validate_optimization_level_body"

definition validate_resilience_level_body :: "int \<Rightarrow> error + int" where
  "validate_resilience_level_body level =
     (if \<not> (0 \<le> level \<and> level \<le> MAX_RESILIENCE_LEVEL)
      then Inl (ValueError level_range_msg)
      else Inr level)"

definition validate_resilience_level :: "int config \<Rightarrow> error + int config" where
  "validate_resilience_level = skip_unset_validation validate_resilience_level_body"

text \<open>
  The model validator. \<open>isinstance(coupling_map, UnsetType)\<close> is the test for the
  sentinel.
\<close>

definition validate_options :: "EstimatorOptions \<Rightarrow> error + EstimatorOptions" where
  "validate_options self =
     (if resilience_level self = Value 3
         \<and> is_simulator self
         \<and> coupling_map (simulator self) = Unset
      then Inl (ValueError coupling_map_msg)
      else Inr self)"

subsection \<open>Construction and assignment as pydantic runs them\<close>

text \<open>
  One keyword argument of the constructor, or one attribute assignment.
\<close>

datatype assignment =
    Set_version int
  | Set_is_simulator bool
  | Set_optimization_level "int config"
  | Set_resilience_level "int config"
  | Set_dynamical_decoupling "DDSequenceType config"
  | Set_simulator SimulatorOptions

text \<open>
  The field validator of the assigned field: only the two levels have one. The result is
  the list of messages of the \<open>ValueError\<close>s raised (empty when the value passes).
\<close>

definition value_errors :: "error + 'a \<Rightarrow> string list" where
  "value_errors r = (case r of Inl (ValueError m) \<Rightarrow> [m] | _ \<Rightarrow> [])"

fun field_errors :: "assignment \<Rightarrow> string list" where
  "field_errors (Set_optimization_level v) = value_errors (validate_optimization_level v)"
| "field_errors (Set_resilience_level v) = value_errors (validate_resilience_level v)"
| "field_errors _ = []"

fun store :: "EstimatorOptions \<Rightarrow> assignment \<Rightarrow> EstimatorOptions" where
  "store self (Set_version v) = self\<lparr>version := v\<rparr>"
| "store self (Set_is_simulator v) = self\<lparr>is_simulator := v\<rparr>"
| "store self (Set_optimization_level v) = self\<lparr>optimization_level := v\<rparr>"
| "store self (Set_resilience_level v) = self\<lparr>resilience_level := v\<rparr>"
| "store self (Set_dynamical_decoupling v) = self\<lparr>dynamical_decoupling := v\<rparr>"
| "store self (Set_simulator v) = self\<lparr>simulator := v\<rparr>"

text \<open>
  \<open>model_validator(mode="after")\<close>: runs on the object once its fields have passed.
\<close>

definition after_validator :: "EstimatorOptions \<Rightarrow> error + EstimatorOptions" where
  "after_validator self =
     (case validate_options self of
        Inl (ValueError m) \<Rightarrow> Inl (ValidationError [m])
      | Inl e \<Rightarrow> Inl e
      | Inr self' \<Rightarrow> Inr self')"

text \<open>
  \<open>validate_assignment=True\<close>: an assignment validates the new value with the field's
  validator and then runs the model validator on the object with the new value in place.
  The result is the error raised or the object after a successful assignment.
\<close>

definition setattr :: "EstimatorOptions \<Rightarrow> assignment \<Rightarrow> error + EstimatorOptions" where
  "setattr self a =
     (case field_errors a of
        [] \<Rightarrow> after_validator (store self a)
      | m # ms \<Rightarrow> Inl (ValidationError (m # ms)))"

text \<open>The declared defaults: every leaf \<open>Unset\<close>, the flag off.\<close>

definition default_options :: EstimatorOptions where
  "default_options =
     \<lparr>version = 2, is_simulator = False, optimization_level = Unset,
      resilience_level = Unset, dynamical_decoupling = Unset,
      simulator = \<lparr>coupling_map = Unset\<rparr>\<rparr>"

text \<open>
  The constructor: the keyword arguments are validated field by field (pydantic collects
  the errors of all fields), the object is built from the defaults and the arguments, and
  the model validator runs on it.
\<close>

definition EstimatorOptions_init :: "assignment list \<Rightarrow> error + EstimatorOptions" where
  "EstimatorOptions_init kwargs =
     (case concat (map field_errors kwargs) of
        [] \<Rightarrow> after_validator (foldl store default_options kwargs)
      | m # ms \<Rightarrow> Inl (ValidationError (m # ms)))"

text \<open>The cross-field rule that \<open>validate_options\<close> rejects.\<close>

definition needs_coupling_map :: "EstimatorOptions \<Rightarrow> bool" where
  "needs_coupling_map self \<longleftrightarrow>
     resilience_level self = Value 3 \<and> is_simulator self \<and> coupling_map (simulator self) = Unset"

text \<open>
  pydantic stores the new value before the model validator runs, so the object holds it
  even when that validator raises; a value that fails its field validator is not stored.
  This is the object that an assignment statement leaves behind, whether it raised or not.
\<close>

definition object_after_setattr :: "EstimatorOptions \<Rightarrow> assignment \<Rightarrow> EstimatorOptions" where
  "object_after_setattr self a = (case field_errors a of [] \<Rightarrow> store self a | m # ms \<Rightarrow> self)"

text \<open>
  Modelled from the spec: \<open>SimulatorOptions\<close> is not among the source files. The statement
  \<open>self.simulator.coupling_map = v\<close> is an assignment on the nested group: Python calls
  the \<open>__setattr__\<close> of the nested object, which validates the value against the rules of
  the group that owns the field. The simulator group has no cross-field rule, and the
  estimator options are not told of the change, so none of their validators runs.
\<close>

definition setattr_simulator_coupling_map ::
  "EstimatorOptions \<Rightarrow> int list list config \<Rightarrow> error + EstimatorOptions" where
  "setattr_simulator_coupling_map self v =
     Inr (self\<lparr>simulator := (simulator self)\<lparr>coupling_map := v\<rparr>\<rparr>)"

section \<open>Runtime session (runtime\_session.py)\<close>

text \<open>
  Modelled from the spec: \<open>RuntimeJob\<close> and \<open>RuntimeOptions\<close> are classes of the package
  that are not among the source files. The session reads a job's \<open>job_id\<close> (a string, the
  job's identity) and the options' \<open>backend_name\<close> (absent, or a string).
\<close>

record RuntimeJob =
  job_id :: string

record RuntimeOptions =
  backend_name :: "string option"

text \<open>
  \<open>Optional[Union[RuntimeOptions, Dict]]\<close>: the session keeps whatever it was given.
\<close>

datatype session_options = OptionsNone | OptionsDict pydict | OptionsObj RuntimeOptions

text \<open>The keyword arguments of one call of \<open>service.run\<close>.\<close>

record run_call =
  run_program_id :: string
  run_options :: session_options
  run_inputs :: pydict
  run_session_id :: "string option"

text \<open>
  What lies outside the session object. Dicts are objects: \<open>heap\<close> holds their contents, a
  reference is an index into it, and a new object goes to the end. \<open>remote\<close> is the state
  of the runtime service, of any type. \<open>run_log\<close> is the trace of the calls of
  \<open>service.run\<close> made so far, each with what it returned or raised.
\<close>

record 'w env =
  heap :: "pydict list"
  remote :: 'w
  run_log :: "(run_call \<times> (error + RuntimeJob)) list"

text \<open>
  The runtime service and the job methods are not among the source files; they are
  parameters. Each may change the remote state and may raise. \<open>'r\<close> is the type of the
  arguments \<open>timeout\<close>, \<open>wait\<close> and \<open>decoder\<close> that \<open>read\<close> hands on to \<open>job.result\<close>.
\<close>

record ('w, 'r) runtime =
  run :: "'w \<Rightarrow> run_call \<Rightarrow> 'w \<times> (error + RuntimeJob)"
  job_result :: "'w \<Rightarrow> RuntimeJob \<Rightarrow> 'r \<Rightarrow> 'w \<times> (error + pyval)"
  job_status :: "'w \<Rightarrow> RuntimeJob \<Rightarrow> 'w \<times> (error + pyval)"

text \<open>
  The fields of the session object. \<open>initial_inputs\<close> is a reference to the caller's
  dict. The service is the \<open>runtime\<close> argument of the functions below.
\<close>

record RuntimeSession =
  program_id :: string
  options :: session_options
  initial_inputs :: nat
  job :: "RuntimeJob option"
  session_id :: "string option"
  active :: bool

definition RuntimeSession_init :: "string \<Rightarrow> nat \<Rightarrow> session_options \<Rightarrow> RuntimeSession" where
  "RuntimeSession_init prog inputs opts =
     \<lparr>program_id = prog, options = opts, initial_inputs = inputs,
      job = None, session_id = None, active = True\<rparr>"

text \<open>
  \<open>copy.copy\<close> of a dict allocates a new dict with the same items. \<open>dict.update\<close> assigns
  the items of its argument one by one. The initial inputs are taken to be a dict. A
  reference that a Python object holds is always valid; the properties that read the
  referenced dict assume that \<open>initial_inputs\<close> lies within the heap.
\<close>

definition copy_copy :: "pydict list \<Rightarrow> nat \<Rightarrow> pydict list \<times> nat" where
  "copy_copy h r = (h @ [h ! r], length h)"

definition dict_update :: "pydict \<Rightarrow> pydict \<Rightarrow> pydict" where
  "dict_update d kwargs = foldl (\<lambda>acc (k, v). AList.update k v acc) d kwargs"

definition closed_msg :: string where
  "closed_msg = ''The session is closed.''"

text \<open>
  The methods of the class carry the prefix \<open>session_\<close>. First
  \<open>write\<close>, with the guard of the \<open>_active_session\<close> decorator first. The result is the
  state afterwards and either the exception raised or \<open>None\<close>.
\<close>

fun session_write :: "('w, 'r) runtime \<Rightarrow> 'w env \<times> RuntimeSession \<Rightarrow> pydict \<Rightarrow>
    ('w env \<times> RuntimeSession) \<times> (error + unit)" where
  "session_write rt (e, self) kwargs =
     (if \<not> active self then ((e, self), Inl (RuntimeError closed_msg))
      else
        let (h1, inputs) = copy_copy (heap e) (initial_inputs self);
            h2 = h1[inputs := dict_update (h1 ! inputs) kwargs];
            call = \<lparr>run_program_id = program_id self, run_options = options self,
                    run_inputs = h2 ! inputs, run_session_id = session_id self\<rparr>;
            (w, r) = run rt (remote e) call;
            e' = e\<lparr>heap := h2, remote := w, run_log := run_log e @ [(call, r)]\<rparr>
        in (case r of
              Inl err \<Rightarrow> ((e', self), Inl err)
            | Inr j \<Rightarrow>
                ((e', self\<lparr>job := Some j,
                           session_id := (if session_id self = None then Some (job_id j)
                                          else session_id self)\<rparr>),
                 Inr ())))"

text \<open>
  \<open>read\<close>: the same guard, then \<open>self._job.result(...)\<close>; with no job yet, \<open>None\<close> has no
  attribute \<open>result\<close>.
\<close>

fun session_read :: "('w, 'r) runtime \<Rightarrow> 'w env \<times> RuntimeSession \<Rightarrow> 'r \<Rightarrow>
    ('w env \<times> RuntimeSession) \<times> (error + pyval)" where
  "session_read rt (e, self) args =
     (if \<not> active self then ((e, self), Inl (RuntimeError closed_msg))
      else
        (case job self of
           None \<Rightarrow> ((e, self), Inl (AttributeError ''result''))
         | Some j \<Rightarrow>
             (let (w, r) = job_result rt (remote e) j args
              in ((e\<lparr>remote := w\<rparr>, self), r))))"

text \<open>
  \<open>info\<close> has no guard. \<open>self._options.backend_name\<close> is an attribute access: \<open>None\<close> and
  a dict have no such attribute. \<open>x or "unknown"\<close> replaces \<open>None\<close> and the empty string.
  A job object counts as true in \<open>if self._job\<close>; only \<open>None\<close> does not.
\<close>

definition backend_or_unknown :: "string option \<Rightarrow> string" where
  "backend_or_unknown b = (case b of None \<Rightarrow> ''unknown'' | Some n \<Rightarrow> if n = [] then ''unknown'' else n)"

fun session_info :: "('w, 'r) runtime \<Rightarrow> 'w env \<times> RuntimeSession \<Rightarrow>
    ('w env \<times> RuntimeSession) \<times> (error + pydict)" where
  "session_info rt (e, self) =
     (case options self of
        OptionsNone \<Rightarrow> ((e, self), Inl (AttributeError ''backend_name''))
      | OptionsDict d \<Rightarrow> ((e, self), Inl (AttributeError ''backend_name''))
      | OptionsObj opts \<Rightarrow>
          (let out = [(''backend'', PStr (backend_or_unknown (backend_name opts)))]
           in (case job self of
                 None \<Rightarrow> ((e, self), Inr out)
               | Some j \<Rightarrow>
                   (let out1 = AList.update ''job id'' (PStr (job_id j)) out;
                        (w, r) = job_status rt (remote e) j
                    in (case r of
                          Inl err \<Rightarrow> ((e\<lparr>remote := w\<rparr>, self), Inl err)
                        | Inr st \<Rightarrow>
                            ((e\<lparr>remote := w\<rparr>, self),
                             Inr (AList.update ''job status'' st out1)))))))"

definition session_close :: "RuntimeSession \<Rightarrow> RuntimeSession" where
  "session_close self = self\<lparr>active := False\<rparr>"

definition session_enter :: "RuntimeSession \<Rightarrow> RuntimeSession" where
  "session_enter self = self"

text \<open>\<open>__exit__\<close> ignores the exception it is given.\<close>

definition session_exit :: "RuntimeSession \<Rightarrow> RuntimeSession" where
  "session_exit self = self\<lparr>active := False\<rparr>"

subsection \<open>Sequences of calls on one session\<close>

text \<open>
  A caller may go on after an exception, so a sequence of calls continues from the state
  each call leaves.
\<close>

datatype 'r session_call =
  Write pydict | Read 'r | Info | Close | Enter | Exit

fun call_session :: "('w, 'r) runtime \<Rightarrow> 'w env \<times> RuntimeSession \<Rightarrow> 'r session_call \<Rightarrow>
    'w env \<times> RuntimeSession" where
  "call_session rt es (Write kwargs) = fst (session_write rt es kwargs)"
| "call_session rt es (Read args) = fst (session_read rt es args)"
| "call_session rt es Info = fst (session_info rt es)"
| "call_session rt es Close = (fst es, session_close (snd es))"
| "call_session rt es Enter = (fst es, session_enter (snd es))"
| "call_session rt es Exit = (fst es, session_exit (snd es))"

definition call_all :: "('w, 'r) runtime \<Rightarrow> 'w env \<times> RuntimeSession \<Rightarrow> 'r session_call list \<Rightarrow>
    'w env \<times> RuntimeSession" where
  "call_all rt es cs = foldl (call_session rt) es cs"

definition write_all :: "('w, 'r) runtime \<Rightarrow> 'w env \<times> RuntimeSession \<Rightarrow> pydict list \<Rightarrow>
    'w env \<times> RuntimeSession" where
  "write_all rt es kws = foldl (\<lambda>es kwargs. fst (session_write rt es kwargs)) es kws"

text \<open>
  The session id that the outcomes of a run of calls of \<open>service.run\<close> leave behind: the
  id of the first job returned, if any.
\<close>

fun first_job_id :: "(error + RuntimeJob) list \<Rightarrow> string option" where
  "first_job_id [] = None"
| "first_job_id (Inl err # rs) = first_job_id rs"
| "first_job_id (Inr j # rs) = Some (job_id j)"

subsection \<open>The estimator front end (ibm\_estimator.py)\<close>

text \<open>
  \<open>IBMEstimator.__call__\<close> builds the inputs dict (a new object) and an options dict, and
  returns a session on them. \<open>self._backend\<close> is the backend name, if any.
\<close>

definition IBMEstimator_call :: "'w env \<Rightarrow> string option \<Rightarrow> pyval \<Rightarrow> pyval \<Rightarrow> pyval \<Rightarrow> pyval \<Rightarrow>
    'w env \<times> RuntimeSession" where
  "IBMEstimator_call e backend circuits observables grouping transpile_options =
     (let inputs = [(''circuits'', circuits), (''observables'', observables),
                    (''grouping'', grouping), (''transpile_options'', transpile_options)];
          options0 = (case backend of
                        None \<Rightarrow> []
                      | Some b \<Rightarrow> if b = [] then [] else [(''backend_name'', PStr b)]);
          options1 = AList.update ''image'' (PStr ''expval:748ef50'') options0
      in (e\<lparr>heap := heap e @ [inputs]\<rparr>,
          RuntimeSession_init ''estimator-X322y4G534'' (length (heap e)) (OptionsDict options1)))"

section \<open>Fake runtime client (test/ibm/runtime/fake\_runtime\_client.py)\<close>

subsection \<open>Fake jobs\<close>

datatype job_class =
    BaseFakeRuntimeJob
  | FailedRuntimeJob
  | FailedRanTooLongRuntimeJob
  | CancelableRuntimeJob
  | CustomResultRuntimeJob
  | TimedRuntimeJob

text \<open>An attribute that the constructor sets on some paths only.\<close>

datatype 'a attr = Missing | Attr 'a

text \<open>
  The background thread of a job runs \<open>_auto_progress\<close>. Its statements that touch the job
  are assignments of the status and the conditional assignments of the result; each is one
  step, and other threads may look at the job between any two steps. The sleeps between
  them only take time and are left out.
\<close>

datatype stmt = SetStatus string | SetResultIf string string

text \<open>
  A \<open>concurrent.futures.Future\<close>: waiting for a worker, running its statements (those
  still to do are \<open>fut_todo\<close>), finished, or cancelled before it started.
\<close>

datatype future_state = FutPending | FutRunning | FutFinished | FutCancelled

record future =
  fut_state :: future_state
  fut_todo :: "stmt list"

text \<open>
  The fields of a job carry the prefix \<open>j_\<close>. \<open>_cancelled\<close> exists on cancelable jobs
  only, whose constructor sets it; on the other classes nothing reads the field.
  \<open>_runtime\<close> exists on timed jobs only.
\<close>

record fake_job =
  j_class :: job_class
  j_id :: string
  j_status :: string
  j_program_id :: string
  j_hub :: "string option"
  j_group :: "string option"
  j_project :: "string option"
  j_backend_name :: string
  j_params :: string
  j_image :: "string option"
  j_future :: "future attr"
  j_result :: "string option attr"
  j_final_status :: "string option"
  j_cancelled :: bool
  j_runtime :: "pyval attr"

text \<open>\<open>json.dumps\<close> of a string without characters to escape: the string in double quotes.\<close>

definition json_dumps :: "string \<Rightarrow> string" where
  "json_dumps s = [CHR 0x22] @ s @ [CHR 0x22]"

definition custom_result :: string where
  "custom_result = ''bar''"

text \<open>The class attribute \<open>_job_progress\<close>, as each class sees it.\<close>

fun job_progress :: "job_class \<Rightarrow> string list" where
  "job_progress FailedRuntimeJob = [''QUEUED'', ''RUNNING'', ''FAILED'']"
| "job_progress FailedRanTooLongRuntimeJob = [''QUEUED'', ''RUNNING'', ''CANCELLED - RAN TOO LONG'']"
| "job_progress CancelableRuntimeJob = [''QUEUED'', ''RUNNING'']"
| "job_progress _ = [''QUEUED'', ''RUNNING'', ''COMPLETED'']"

text \<open>\<open>BaseFakeRuntimeJob._auto_progress\<close>, and the method each class runs.\<close>

definition base_auto_progress :: "job_class \<Rightarrow> stmt list" where
  "base_auto_progress cls =
     map SetStatus (job_progress cls) @ [SetResultIf ''COMPLETED'' (json_dumps ''foo'')]"

fun auto_progress :: "job_class \<Rightarrow> stmt list" where
  "auto_progress FailedRuntimeJob =
     base_auto_progress FailedRuntimeJob @ [SetResultIf ''FAILED'' ''Kaboom!'']"
| "auto_progress FailedRanTooLongRuntimeJob =
     base_auto_progress FailedRanTooLongRuntimeJob
       @ [SetResultIf ''CANCELLED - RAN TOO LONG'' ''Kaboom!'']"
| "auto_progress CustomResultRuntimeJob =
     base_auto_progress CustomResultRuntimeJob
       @ [SetResultIf ''COMPLETED'' (json_dumps custom_result)]"
| "auto_progress TimedRuntimeJob =
     [SetStatus ''RUNNING'', SetStatus ''COMPLETED'',
      SetResultIf ''COMPLETED'' (json_dumps ''foo'')]"
| "auto_progress cls = base_auto_progress cls"

text \<open>The keyword arguments that \<open>program_run\<close> gives to the job class.\<close>

record job_args =
  a_job_id :: string
  a_program_id :: string
  a_hub :: "string option"
  a_group :: "string option"
  a_project :: "string option"
  a_backend_name :: string
  a_final_status :: "string option"
  a_params :: string
  a_image :: "string option"

text \<open>
  \<open>BaseFakeRuntimeJob.__init__\<close>. \<open>final_status or "QUEUED"\<close> replaces \<open>None\<close> and the
  empty string. Without a final status the progress is handed to the executor and the
  result starts as \<open>None\<close>; with \<open>COMPLETED\<close> the result is set at once; otherwise the
  job has no result attribute.
\<close>

definition BaseFakeRuntimeJob_init :: "job_class \<Rightarrow> job_args \<Rightarrow> fake_job" where
  "BaseFakeRuntimeJob_init cls a =
     \<lparr>j_class = cls,
      j_id = a_job_id a,
      j_status = (case a_final_status a of
                    None \<Rightarrow> ''QUEUED''
                  | Some f \<Rightarrow> if f = [] then ''QUEUED'' else f),
      j_program_id = a_program_id a,
      j_hub = a_hub a, j_group = a_group a, j_project = a_project a,
      j_backend_name = a_backend_name a,
      j_params = a_params a,
      j_image = a_image a,
      j_future = (if a_final_status a = None
                  then Attr \<lparr>fut_state = FutPending, fut_todo = auto_progress cls\<rparr>
                  else Missing),
      j_result = (if a_final_status a = None then Attr None
                  else if a_final_status a = Some ''COMPLETED''
                  then Attr (Some (json_dumps ''foo''))
                  else Missing),
      j_final_status = a_final_status a,
      j_cancelled = False,
      j_runtime = Missing\<rparr>"

text \<open>
  Calling a job class with the arguments and the client's extra keyword arguments. A timed
  job pops \<open>run_time\<close> first; any keyword the base constructor does not know is a
  \<open>TypeError\<close>.
\<close>

definition new_job :: "job_class \<Rightarrow> job_args \<Rightarrow> pydict \<Rightarrow> error + fake_job" where
  "new_job cls a kwargs =
     (if cls = TimedRuntimeJob then
        (case map_of kwargs ''run_time'' of
           None \<Rightarrow> Inl (KeyError ''run_time'')
         | Some t \<Rightarrow>
             if AList.delete ''run_time'' kwargs \<noteq> [] then Inl (TypeError ''__init__'')
             else Inr ((BaseFakeRuntimeJob_init cls a)\<lparr>j_runtime := Attr t\<rparr>))
      else if kwargs \<noteq> [] then Inl (TypeError ''__init__'')
      else Inr (BaseFakeRuntimeJob_init cls a))"

fun exec_stmt :: "fake_job \<Rightarrow> stmt \<Rightarrow> fake_job" where
  "exec_stmt j (SetStatus st) = j\<lparr>j_status := st\<rparr>"
| "exec_stmt j (SetResultIf st r) = (if j_status j = st then j\<lparr>j_result := Attr (Some r)\<rparr> else j)"

text \<open>
  One step of the job's background thread: a worker takes the task, runs its next
  statement, or finishes. A finished or cancelled task does nothing more.
\<close>

definition thread_step :: "fake_job \<Rightarrow> fake_job" where
  "thread_step j =
     (case j_future j of
        Missing \<Rightarrow> j
      | Attr f \<Rightarrow>
          (case fut_state f of
             FutPending \<Rightarrow> j\<lparr>j_future := Attr (f\<lparr>fut_state := FutRunning\<rparr>)\<rparr>
           | FutRunning \<Rightarrow>
               (case fut_todo f of
                  [] \<Rightarrow> j\<lparr>j_future := Attr (f\<lparr>fut_state := FutFinished\<rparr>)\<rparr>
                | st # rest \<Rightarrow> (exec_stmt j st)\<lparr>j_future := Attr (f\<lparr>fut_todo := rest\<rparr>)\<rparr>)
           | FutFinished \<Rightarrow> j
           | FutCancelled \<Rightarrow> j))"

text \<open>\<open>Future.cancel\<close>: only a task that has not started can be cancelled.\<close>

definition future_cancel :: "future \<Rightarrow> future" where
  "future_cancel f = (if fut_state f = FutPending then f\<lparr>fut_state := FutCancelled\<rparr> else f)"

record job_dict =
  d_id :: string
  d_hub :: "string option"
  d_group :: "string option"
  d_project :: "string option"
  d_backend :: string
  d_status :: string
  d_params :: "string list"
  d_program_id :: string
  d_image :: "string option"

definition base_to_dict :: "fake_job \<Rightarrow> job_dict" where
  "base_to_dict j =
     \<lparr>d_id = j_id j, d_hub = j_hub j, d_group = j_group j, d_project = j_project j,
      d_backend = j_backend_name j, d_status = j_status j, d_params = [j_params j],
      d_program_id = j_program_id j, d_image = j_image j\<rparr>"

text \<open>\<open>to_dict\<close>: the cancelable class overrides it.\<close>

definition to_dict :: "fake_job \<Rightarrow> job_dict" where
  "to_dict j =
     (if j_class j = CancelableRuntimeJob \<and> j_cancelled j
      then (base_to_dict j)\<lparr>d_status := ''CANCELLED''\<rparr>
      else base_to_dict j)"

definition job_result_method :: "fake_job \<Rightarrow> error + string option" where
  "job_result_method j =
     (case j_result j of Missing \<Rightarrow> Inl (AttributeError ''_result'') | Attr r \<Rightarrow> Inr r)"

text \<open>
  \<open>cancel\<close> is a method of the cancelable class alone; it needs the future, which a job
  with a preset final status does not have.
\<close>

definition job_cancel_method :: "fake_job \<Rightarrow> error + fake_job" where
  "job_cancel_method j =
     (if j_class j = CancelableRuntimeJob then
        (case j_future j of
           Missing \<Rightarrow> Inl (AttributeError ''_future'')
         | Attr f \<Rightarrow> Inr (j\<lparr>j_future := Attr (future_cancel f), j_cancelled := True\<rparr>))
      else Inl (AttributeError ''cancel''))"

subsection \<open>The fake client\<close>

text \<open>
  The job registry \<open>_jobs\<close> is a dict in insertion order. The program registry takes no
  part in running, listing or cancelling jobs and is left out.
\<close>

record credentials =
  cred_hub :: "string option"
  cred_group :: "string option"
  cred_project :: "string option"

record fake_client =
  c_jobs :: "(string \<times> fake_job) list"
  c_job_classes :: "job_class list"
  c_final_status :: "string option"
  c_job_kwargs :: pydict
  c_hub :: "string option"
  c_group :: "string option"
  c_project :: "string option"

text \<open>Python's truth value of an optional string, and \<open>a or b\<close> on them.\<close>

definition truthy :: "string option \<Rightarrow> bool" where
  "truthy x = (case x of None \<Rightarrow> False | Some v \<Rightarrow> v \<noteq> [])"

definition py_or :: "string option \<Rightarrow> string option \<Rightarrow> string option" where
  "py_or a b = (if truthy a then a else b)"

definition BaseFakeRuntimeClient_init ::
  "job_class list option \<Rightarrow> string option \<Rightarrow> pydict option \<Rightarrow>
   string option \<Rightarrow> string option \<Rightarrow> string option \<Rightarrow> fake_client" where
  "BaseFakeRuntimeClient_init job_classes final_status job_kwargs hub grp project =
     \<lparr>c_jobs = [],
      c_job_classes = (case job_classes of None \<Rightarrow> [] | Some cs \<Rightarrow> cs),
      c_final_status = final_status,
      c_job_kwargs = (case job_kwargs of None \<Rightarrow> [] | Some k \<Rightarrow> k),
      c_hub = hub, c_group = grp, c_project = project\<rparr>"

definition set_hgp :: "fake_client \<Rightarrow> string option \<Rightarrow> string option \<Rightarrow> string option \<Rightarrow> fake_client" where
  "set_hgp c hub grp project = c\<lparr>c_hub := hub, c_group := grp, c_project := project\<rparr>"

definition set_job_classes :: "fake_client \<Rightarrow> job_class list \<Rightarrow> fake_client" where
  "set_job_classes c classes = c\<lparr>c_job_classes := classes\<rparr>"

definition set_final_status :: "fake_client \<Rightarrow> string option \<Rightarrow> fake_client" where
  "set_final_status c final_status = c\<lparr>c_final_status := final_status\<rparr>"

text \<open>
  \<open>program_run\<close>. The job id is \<open>uuid.uuid4().hex\<close>, chosen outside the program, so it is
  an argument here. The class is popped from the queue of classes before the job is built,
  so it is gone even when the constructor raises.
\<close>

definition program_run ::
  "fake_client \<Rightarrow> string \<Rightarrow> string \<Rightarrow> credentials \<Rightarrow> string \<Rightarrow> string \<Rightarrow> string option \<Rightarrow>
   fake_client \<times> (error + string)" where
  "program_run c jid prog creds backend params img =
     (let job_cls = (case c_job_classes c of [] \<Rightarrow> BaseFakeRuntimeJob | cls # rest \<Rightarrow> cls);
          c1 = c\<lparr>c_job_classes := (case c_job_classes c of [] \<Rightarrow> [] | cls # rest \<Rightarrow> rest)\<rparr>;
          hub = py_or (c_hub c) (cred_hub creds);
          grp = py_or (c_group c) (cred_group creds);
          project = py_or (c_project c) (cred_project creds)
      in (case new_job job_cls
                 \<lparr>a_job_id = jid, a_program_id = prog, a_hub = hub, a_group = grp,
                  a_project = project, a_backend_name = backend,
                  a_final_status = c_final_status c, a_params = params, a_image = img\<rparr>
                 (c_job_kwargs c) of
            Inl err \<Rightarrow> (c1, Inl err)
          | Inr j \<Rightarrow> (c1\<lparr>c_jobs := AList.update jid j (c_jobs c1)\<rparr>, Inr jid)))"

definition get_job :: "fake_client \<Rightarrow> string \<Rightarrow> error + fake_job" where
  "get_job c jid =
     (case map_of (c_jobs c) jid of
        None \<Rightarrow> Inl (RequestsApiError ''Job not found'' 404)
      | Some j \<Rightarrow> Inr j)"

definition job_get :: "fake_client \<Rightarrow> string \<Rightarrow> error + job_dict" where
  "job_get c jid = (case get_job c jid of Inl err \<Rightarrow> Inl err | Inr j \<Rightarrow> Inr (to_dict j))"

text \<open>Python's \<open>xs[lo:hi]\<close> for integers \<open>lo\<close> and \<open>hi\<close>: a negative index counts from the end.\<close>

definition slice_index :: "nat \<Rightarrow> int \<Rightarrow> nat" where
  "slice_index n i = (if i < 0 then nat (max (i + int n) 0) else min (nat i) n)"

definition py_slice :: "'a list \<Rightarrow> int \<Rightarrow> int \<Rightarrow> 'a list" where
  "py_slice xs lo hi =
     take (slice_index (length xs) hi - slice_index (length xs) lo)
       (drop (slice_index (length xs) lo) xs)"

record job_list =
  l_jobs :: "job_dict list"
  l_count :: nat

definition pending_statuses :: "string list" where
  "pending_statuses = [''QUEUED'', ''RUNNING'']"

definition returned_statuses :: "string list" where
  "returned_statuses = [''COMPLETED'', ''FAILED'', ''CANCELLED'']"

text \<open>
  \<open>jobs_get\<close>. \<open>limit or len(self._jobs)\<close> and \<open>skip or 0\<close> replace \<open>None\<close> and 0. The
  filters test the job's own \<open>_status\<close>, \<open>_program_id\<close> and owner fields; the count is
  taken after the last filter applied and before the slice.
\<close>

definition jobs_get ::
  "fake_client \<Rightarrow> int option \<Rightarrow> int option \<Rightarrow> bool option \<Rightarrow> string option \<Rightarrow>
   string option \<Rightarrow> string option \<Rightarrow> string option \<Rightarrow> job_list" where
  "jobs_get c limit skip pending prog hub grp project =
     (let limit1 = (case limit of
                      None \<Rightarrow> int (length (c_jobs c))
                    | Some l \<Rightarrow> if l = 0 then int (length (c_jobs c)) else l);
          skip1 = (case skip of None \<Rightarrow> 0 | Some k \<Rightarrow> k);
          jobs0 = map snd (c_jobs c);
          jobs1 = (case pending of
                     None \<Rightarrow> jobs0
                   | Some p \<Rightarrow>
                       filter (\<lambda>j. j_status j \<in> set (if p then pending_statuses else returned_statuses))
                         jobs0);
          jobs2 = (if truthy prog then filter (\<lambda>j. Some (j_program_id j) = prog) jobs1 else jobs1);
          jobs3 = (if truthy hub \<and> truthy grp \<and> truthy project
                   then filter (\<lambda>j. j_hub j = hub \<and> j_group j = grp \<and> j_project j = project) jobs2
                   else jobs2)
      in \<lparr>l_jobs = map to_dict (py_slice jobs3 skip1 (limit1 + skip1)),
          l_count = length jobs3\<rparr>)"

definition job_results :: "fake_client \<Rightarrow> string \<Rightarrow> error + string option" where
  "job_results c jid =
     (case get_job c jid of Inl err \<Rightarrow> Inl err | Inr j \<Rightarrow> job_result_method j)"

definition job_cancel :: "fake_client \<Rightarrow> string \<Rightarrow> error + fake_client" where
  "job_cancel c jid =
     (case get_job c jid of
        Inl err \<Rightarrow> Inl err
      | Inr j \<Rightarrow>
          (case job_cancel_method j of
             Inl err \<Rightarrow> Inl err
           | Inr j' \<Rightarrow> Inr (c\<lparr>c_jobs := AList.update jid j' (c_jobs c)\<rparr>)))"

definition job_delete :: "fake_client \<Rightarrow> string \<Rightarrow> error + fake_client" where
  "job_delete c jid =
     (case get_job c jid of
        Inl err \<Rightarrow> Inl err
      | Inr j \<Rightarrow> Inr (c\<lparr>c_jobs := AList.delete jid (c_jobs c)\<rparr>))"

text \<open>
  Time passing: the background thread of one job takes one step, or of one job \<open>n\<close>
  steps in a row.
\<close>

definition tick :: "string \<Rightarrow> fake_client \<Rightarrow> fake_client" where
  "tick jid c = c\<lparr>c_jobs := AList.map_entry jid thread_step (c_jobs c)\<rparr>"

definition ticks :: "nat \<Rightarrow> string \<Rightarrow> fake_client \<Rightarrow> fake_client" where
  "ticks n jid c = (tick jid ^^ n) c"

text \<open>A client as the tests make it, with nothing preset, and the credentials of a caller.\<close>

definition default_client :: fake_client where
  "default_client = BaseFakeRuntimeClient_init None None None None None None"

definition some_credentials :: credentials where
  "some_credentials = \<lparr>cred_hub = Some ''hub'', cred_group = Some ''group'', cred_project = Some ''project''\<rparr>"

subsection \<open>Notions used to state the properties of the fake client\<close>

text \<open>
  The job that a client with nothing preset builds, and what holds of a cancelable job
  at every point of its progress: it is not cancelled, its status is pending and its
  task has only those statuses left to set.
\<close>

definition default_job :: "string \<Rightarrow> string \<Rightarrow> credentials \<Rightarrow> string \<Rightarrow> string \<Rightarrow> string option \<Rightarrow> fake_job" where
  "default_job jid prog creds backend params img =
     BaseFakeRuntimeJob_init BaseFakeRuntimeJob
       \<lparr>a_job_id = jid, a_program_id = prog, a_hub = cred_hub creds,
        a_group = cred_group creds, a_project = cred_project creds, a_backend_name = backend,
        a_final_status = None, a_params = params, a_image = img\<rparr>"

definition cancelable_pending :: "fake_job \<Rightarrow> bool" where
  "cancelable_pending j \<longleftrightarrow>
     j_class j = CancelableRuntimeJob \<and> \<not> j_cancelled j
     \<and> (j_status j = ''QUEUED'' \<or> j_status j = ''RUNNING'')
     \<and> (case j_future j of
           Missing \<Rightarrow> False
         | Attr f \<Rightarrow>
             list_all (\<lambda>st. st = SetStatus ''QUEUED'' \<or> st = SetStatus ''RUNNING''
                        \<or> st = SetResultIf ''COMPLETED'' (json_dumps ''foo'')) (fut_todo f))"

subsection \<open>Notions used to state the properties of the session\<close>

text \<open>
  The call of \<open>service.run\<close> that a write from a given state makes, the session id after
  a run of outcomes when the session started with \<open>sid\<close>, and the entries that a later
  state's log has beyond an earlier one's.
\<close>

definition write_call :: "'w env \<Rightarrow> RuntimeSession \<Rightarrow> pydict \<Rightarrow> run_call" where
  "write_call e self kwargs =
     \<lparr>run_program_id = program_id self, run_options = options self,
      run_inputs = dict_update (heap e ! initial_inputs self) kwargs,
      run_session_id = session_id self\<rparr>"

definition session_id_after :: "string option \<Rightarrow> (error + RuntimeJob) list \<Rightarrow> string option" where
  "session_id_after sid rs = (case sid of None \<Rightarrow> first_job_id rs | Some x \<Rightarrow> Some x)"

definition new_calls :: "'w env \<Rightarrow> 'w env \<Rightarrow> (run_call \<times> (error + RuntimeJob)) list" where
  "new_calls e e' = drop (length (run_log e)) (run_log e')"

text \<open>
  A small service for the examples: the remote state counts the jobs, the ids are
  \<open>j\<close>, \<open>jj\<close>, ... It starts with one dict on the heap, the initial inputs of the
  example session.
\<close>

definition stub_runtime :: "(nat, unit) runtime" where
  "stub_runtime =
     \<lparr>run = (\<lambda>w c. (Suc w, Inr \<lparr>job_id = replicate (Suc w) (CHR ''j'')\<rparr>)),
      job_result = (\<lambda>w j args. (w, Inr (PStr ''done''))),
      job_status = (\<lambda>w j. (w, Inr (PStr ''RUNNING'')))\<rparr>"

definition stub_env :: "nat env" where
  "stub_env = \<lparr>heap = [[(''circuits'', PInt 1)]], remote = 0, run_log = []\<rparr>"

definition stub_session :: RuntimeSession where
  "stub_session = RuntimeSession_init ''prog'' 0 OptionsNone"

section \<open>Properties of the estimator options\<close>

lemma after_validator_eq:
  "after_validator self =
     (if needs_coupling_map self then Inl (ValidationError [coupling_map_msg]) else Inr self)"
  by (simp add: after_validator_def validate_options_def needs_coupling_map_def)

lemma field_errors_level_ok:
  "0 \<le> v \<Longrightarrow> v \<le> 3 \<Longrightarrow> value_errors (validate_optimization_level (Value v)) = []"
  "0 \<le> v \<Longrightarrow> v \<le> 3 \<Longrightarrow> value_errors (validate_resilience_level (Value v)) = []"
  by (simp_all add: value_errors_def validate_optimization_level_def
      validate_resilience_level_def skip_unset_validation_def
      validate_optimization_level_body_def validate_resilience_level_body_def
      MAX_RESILIENCE_LEVEL_def)

lemma field_errors_level_bad:
  "v < 0 \<or> 3 < v \<Longrightarrow> value_errors (validate_optimization_level (Value v)) = [level_range_msg]"
  "v < 0 \<or> 3 < v \<Longrightarrow> value_errors (validate_resilience_level (Value v)) = [level_range_msg]"
  by (auto simp add: value_errors_def validate_optimization_level_def
      validate_resilience_level_def skip_unset_validation_def
      validate_optimization_level_body_def validate_resilience_level_body_def
      MAX_RESILIENCE_LEVEL_def)

lemma field_errors_unset:
  "value_errors (validate_optimization_level Unset) = []"
  "value_errors (validate_resilience_level Unset) = []"
  by (simp_all add: value_errors_def validate_optimization_level_def
      validate_resilience_level_def skip_unset_validation_def)

lemma needs_coupling_map_store_optimization_level [simp]:
  "needs_coupling_map (self\<lparr>optimization_level := v\<rparr>) = needs_coupling_map self"
  by (simp add: needs_coupling_map_def)

lemma setattr_eq:
  "field_errors a = [] \<Longrightarrow>
     setattr self a =
       (if needs_coupling_map (store self a) then Inl (ValidationError [coupling_map_msg])
        else Inr (store self a))"
  by (simp add: setattr_def after_validator_eq)

lemma setattr_field_error:
  "field_errors a = m # ms \<Longrightarrow> setattr self a = Inl (ValidationError (m # ms))"
  by (simp add: setattr_def)

lemma setattr_rejects_rule_violation:
  assumes "needs_coupling_map (store self a)"
  shows "\<exists>ms. setattr self a = Inl (ValidationError ms)"
proof (cases "field_errors a")
  case Nil
  with assms show ?thesis by (simp add: setattr_eq)
next
  case (Cons m ms)
  then show ?thesis by (simp add: setattr_field_error)
qed

lemma init_rejects_rule_violation:
  assumes "needs_coupling_map (foldl store default_options kwargs)"
  shows "\<exists>ms. EstimatorOptions_init kwargs = Inl (ValidationError ms)"
proof (cases "concat (map field_errors kwargs)")
  case Nil
  show ?thesis
    unfolding EstimatorOptions_init_def Nil by (simp add: after_validator_eq assms)
next
  case (Cons m ms)
  then show ?thesis by (simp add: EstimatorOptions_init_def)
qed

subsection \<open>Claims about the estimator options\<close>

text \<open>
  C2. With the simulator flag set and the simulator's coupling map \<open>Unset\<close>, assigning
  \<open>resilience_level = 3\<close> raises the validation error, and so does every construction
  whose arguments give such an object. When a coupling map is assigned first (the
  \<open>simulator\<close> group carrying one), that assignment succeeds and the assignment of
  \<open>resilience_level = 3\<close> that follows succeeds too, storing 3.
\<close>

theorem resilience_level_3_needs_coupling_map:
  assumes "is_simulator self"
  shows "(coupling_map (simulator self) = Unset \<longrightarrow>
            setattr self (Set_resilience_level (Value 3)) =
              Inl (ValidationError [coupling_map_msg]))
       \<and> (needs_coupling_map (foldl store default_options kwargs) \<longrightarrow>
            (\<exists>ms. EstimatorOptions_init kwargs = Inl (ValidationError ms)))
       \<and> (coupling_map sim = Value cm \<longrightarrow>
            setattr self (Set_simulator sim) = Inr (self\<lparr>simulator := sim\<rparr>)
          \<and> setattr (self\<lparr>simulator := sim\<rparr>) (Set_resilience_level (Value 3)) =
              Inr (self\<lparr>simulator := sim, resilience_level := Value 3\<rparr>))"
proof (intro conjI impI)
  assume "coupling_map (simulator self) = Unset"
  with assms show "setattr self (Set_resilience_level (Value 3)) =
      Inl (ValidationError [coupling_map_msg])"
    by (simp add: setattr_eq field_errors_level_ok needs_coupling_map_def)
next
  assume "needs_coupling_map (foldl store default_options kwargs)"
  then show "\<exists>ms. EstimatorOptions_init kwargs = Inl (ValidationError ms)"
    by (rule init_rejects_rule_violation)
next
  assume "coupling_map sim = Value cm"
  then show "setattr self (Set_simulator sim) = Inr (self\<lparr>simulator := sim\<rparr>)"
    by (simp add: setattr_eq needs_coupling_map_def)
next
  assume "coupling_map sim = Value cm"
  then show "setattr (self\<lparr>simulator := sim\<rparr>) (Set_resilience_level (Value 3)) =
      Inr (self\<lparr>simulator := sim, resilience_level := Value 3\<rparr>)"
    by (simp add: setattr_eq field_errors_level_ok needs_coupling_map_def)
qed

theorem resilience_level_3_needs_coupling_map_witness:
  "is_simulator (default_options\<lparr>is_simulator := True\<rparr>)
   \<and> setattr (default_options\<lparr>is_simulator := True\<rparr>) (Set_resilience_level (Value 3)) =
       Inl (ValidationError [coupling_map_msg])
   \<and> (\<exists>ms. EstimatorOptions_init [Set_is_simulator True, Set_resilience_level (Value 3)] =
         Inl (ValidationError ms))
   \<and> setattr (default_options\<lparr>is_simulator := True, simulator := \<lparr>coupling_map = Value [[0, 1]]\<rparr>\<rparr>)
         (Set_resilience_level (Value 3)) =
       Inr (default_options\<lparr>is_simulator := True, simulator := \<lparr>coupling_map = Value [[0, 1]]\<rparr>,
              resilience_level := Value 3\<rparr>)"
  using resilience_level_3_needs_coupling_map
    [of "default_options\<lparr>is_simulator := True\<rparr>"
        "[Set_is_simulator True, Set_resilience_level (Value 3)]"
        "\<lparr>coupling_map = Value [[0, 1]]\<rparr>" "[[0, 1]]"]
  by (simp add: default_options_def needs_coupling_map_def)

text \<open>
  An assignment that the model validator rejects leaves the rejected value in the object.
\<close>

lemma rejected_assignment_is_stored:
  assumes "field_errors a = []" and "needs_coupling_map (store self a)"
  shows "setattr self a = Inl (ValidationError [coupling_map_msg])
    \<and> needs_coupling_map (object_after_setattr self a)"
  using assms by (simp add: setattr_eq object_after_setattr_def)

text \<open>
  C6 as stated fails: the rule reads \<open>simulator.coupling_map\<close>, and changing that field in
  place raises nothing. An object built with the simulator flag, a coupling map and
  \<open>resilience_level = 3\<close> passes the rule; after \<open>simulator.coupling_map = Unset\<close> it
  breaks the rule, and the assignment has succeeded.
\<close>

theorem nested_coupling_map_change_counterexample:
  "EstimatorOptions_init
     [Set_is_simulator True, Set_simulator \<lparr>coupling_map = Value [[0, 1]]\<rparr>,
      Set_resilience_level (Value 3)] =
     Inr (default_options\<lparr>is_simulator := True, simulator := \<lparr>coupling_map = Value [[0, 1]]\<rparr>,
            resilience_level := Value 3\<rparr>)
   \<and> setattr_simulator_coupling_map
       (default_options\<lparr>is_simulator := True, simulator := \<lparr>coupling_map = Value [[0, 1]]\<rparr>,
          resilience_level := Value 3\<rparr>) Unset =
     Inr (default_options\<lparr>is_simulator := True, simulator := \<lparr>coupling_map = Unset\<rparr>,
            resilience_level := Value 3\<rparr>)
   \<and> needs_coupling_map
       (default_options\<lparr>is_simulator := True, simulator := \<lparr>coupling_map = Unset\<rparr>,
          resilience_level := Value 3\<rparr>)"
  by (simp add: EstimatorOptions_init_def after_validator_eq field_errors_level_ok
      needs_coupling_map_def setattr_simulator_coupling_map_def default_options_def)

text \<open>
  C6, amended. Every assignment to a field of the options object itself
  (\<open>resilience_level\<close>, the simulator flag, the \<open>simulator\<close> group as a whole, or any
  other of its fields) whose value passes its field validator runs the model validator on
  the object with the new value in place: the assignment raises the validation error with
  the coupling-map message when that object has \<open>resilience_level = 3\<close>, the simulator
  flag set and the coupling map \<open>Unset\<close>, and stores the value otherwise. In particular,
  setting the simulator flag alone on an object that has \<open>resilience_level = 3\<close> and no
  coupling map raises it. An assignment to \<open>coupling_map\<close> inside the \<open>simulator\<close> group
  is not such an assignment: it runs no cross-field validation and always succeeds.
\<close>

theorem cross_field_rule_rechecked_on_assignment:
  "(field_errors a = [] \<longrightarrow>
      setattr self a =
        (if needs_coupling_map (store self a) then Inl (ValidationError [coupling_map_msg])
         else Inr (store self a)))
   \<and> (needs_coupling_map (store self a) \<longrightarrow> (\<exists>ms. setattr self a = Inl (ValidationError ms)))
   \<and> (resilience_level self = Value 3 \<and> coupling_map (simulator self) = Unset \<longrightarrow>
        setattr self (Set_is_simulator True) = Inl (ValidationError [coupling_map_msg]))
   \<and> setattr_simulator_coupling_map self v =
        Inr (self\<lparr>simulator := (simulator self)\<lparr>coupling_map := v\<rparr>\<rparr>)"
proof (intro conjI impI)
  assume "field_errors a = []"
  then show "setattr self a =
      (if needs_coupling_map (store self a) then Inl (ValidationError [coupling_map_msg])
       else Inr (store self a))"
    by (rule setattr_eq)
next
  assume "needs_coupling_map (store self a)"
  then show "\<exists>ms. setattr self a = Inl (ValidationError ms)"
    by (rule setattr_rejects_rule_violation)
next
  assume "resilience_level self = Value 3 \<and> coupling_map (simulator self) = Unset"
  then show "setattr self (Set_is_simulator True) = Inl (ValidationError [coupling_map_msg])"
    by (simp add: setattr_eq needs_coupling_map_def)
next
  show "setattr_simulator_coupling_map self v =
      Inr (self\<lparr>simulator := (simulator self)\<lparr>coupling_map := v\<rparr>\<rparr>)"
    by (simp add: setattr_simulator_coupling_map_def)
qed

theorem cross_field_rule_rechecked_on_assignment_witness:
  "field_errors (Set_is_simulator True) = []
   \<and> needs_coupling_map (store (default_options\<lparr>resilience_level := Value 3\<rparr>) (Set_is_simulator True))
   \<and> resilience_level (default_options\<lparr>resilience_level := Value 3\<rparr>) = Value 3
   \<and> coupling_map (simulator (default_options\<lparr>resilience_level := Value 3\<rparr>)) = Unset
   \<and> setattr (default_options\<lparr>resilience_level := Value 3\<rparr>) (Set_is_simulator True) =
       Inl (ValidationError [coupling_map_msg])
   \<and> setattr (default_options\<lparr>resilience_level := Value 3\<rparr>) (Set_is_simulator False) =
       Inr (default_options\<lparr>resilience_level := Value 3, is_simulator := False\<rparr>)"
proof -
  let ?o = "default_options\<lparr>resilience_level := Value 3\<rparr>"
  have f: "field_errors (Set_is_simulator True) = []" "field_errors (Set_is_simulator False) = []"
    by simp_all
  have n: "needs_coupling_map (store ?o (Set_is_simulator True))"
    and r: "resilience_level ?o = Value 3" and c: "coupling_map (simulator ?o) = Unset"
    and k: "\<not> needs_coupling_map (store ?o (Set_is_simulator False))"
    by (simp_all add: default_options_def needs_coupling_map_def)
  from cross_field_rule_rechecked_on_assignment [of "Set_is_simulator True" ?o] r c
  have up: "setattr ?o (Set_is_simulator True) = Inl (ValidationError [coupling_map_msg])"
    by blast
  from cross_field_rule_rechecked_on_assignment [of "Set_is_simulator False" ?o] f(2) k
  have "setattr ?o (Set_is_simulator False) = Inr (store ?o (Set_is_simulator False))"
    by simp
  then have down: "setattr ?o (Set_is_simulator False) =
      Inr (default_options\<lparr>resilience_level := Value 3, is_simulator := False\<rparr>)"
    by simp
  from f(1) n r c up down show ?thesis by blast
qed

text \<open>
  C7 as stated fails: 3 lies in the range, yet assigning \<open>resilience_level = 3\<close> raises on
  an object whose simulator flag was set and which has no coupling map.
\<close>

theorem level_in_range_rejected_counterexample:
  "setattr default_options (Set_is_simulator True) = Inr (default_options\<lparr>is_simulator := True\<rparr>)
   \<and> setattr (default_options\<lparr>is_simulator := True\<rparr>) (Set_resilience_level (Value 3)) =
       Inl (ValidationError [coupling_map_msg])"
  by (simp add: setattr_eq field_errors_level_ok needs_coupling_map_def default_options_def)

text \<open>
  C7, amended. An integer outside 0..3 assigned to \<open>optimization_level\<close> or
  \<open>resilience_level\<close> raises the validation error with the range message. An integer in
  0..3 passes the range validator; the assignment then stores it as it is when the object
  with the new value passes the cross-field rule, and raises the validation error with the
  coupling-map message when it does not. The range validators are not called on \<open>Unset\<close>
  and return it as it is; assigning \<open>Unset\<close> to \<open>resilience_level\<close> always succeeds,
  and assigning it to \<open>optimization_level\<close> succeeds or raises by the cross-field rule
  alone.
\<close>

theorem level_assignment:
  "(v < 0 \<or> 3 < v \<longrightarrow>
      setattr self (Set_optimization_level (Value v)) = Inl (ValidationError [level_range_msg])
    \<and> setattr self (Set_resilience_level (Value v)) = Inl (ValidationError [level_range_msg]))
   \<and> (0 \<le> v \<and> v \<le> 3 \<longrightarrow>
        setattr self (Set_optimization_level (Value v)) =
          (if needs_coupling_map self then Inl (ValidationError [coupling_map_msg])
           else Inr (self\<lparr>optimization_level := Value v\<rparr>))
      \<and> setattr self (Set_resilience_level (Value v)) =
          (if needs_coupling_map (self\<lparr>resilience_level := Value v\<rparr>)
           then Inl (ValidationError [coupling_map_msg])
           else Inr (self\<lparr>resilience_level := Value v\<rparr>)))
   \<and> skip_unset_validation func Unset = Inr Unset
   \<and> validate_optimization_level Unset = Inr Unset
   \<and> validate_resilience_level Unset = Inr Unset
   \<and> setattr self (Set_optimization_level Unset) =
        (if needs_coupling_map self then Inl (ValidationError [coupling_map_msg])
         else Inr (self\<lparr>optimization_level := Unset\<rparr>))
   \<and> setattr self (Set_resilience_level Unset) = Inr (self\<lparr>resilience_level := Unset\<rparr>)"
proof (intro conjI impI)
  assume "v < 0 \<or> 3 < v"
  then show "setattr self (Set_optimization_level (Value v)) = Inl (ValidationError [level_range_msg])"
    by (simp add: setattr_field_error field_errors_level_bad)
next
  assume "v < 0 \<or> 3 < v"
  then show "setattr self (Set_resilience_level (Value v)) = Inl (ValidationError [level_range_msg])"
    by (simp add: setattr_field_error field_errors_level_bad)
next
  assume "0 \<le> v \<and> v \<le> 3"
  then show "setattr self (Set_optimization_level (Value v)) =
      (if needs_coupling_map self then Inl (ValidationError [coupling_map_msg])
       else Inr (self\<lparr>optimization_level := Value v\<rparr>))"
    by (simp add: setattr_eq field_errors_level_ok)
next
  assume "0 \<le> v \<and> v \<le> 3"
  then show "setattr self (Set_resilience_level (Value v)) =
      (if needs_coupling_map (self\<lparr>resilience_level := Value v\<rparr>)
       then Inl (ValidationError [coupling_map_msg])
       else Inr (self\<lparr>resilience_level := Value v\<rparr>))"
    by (simp add: setattr_eq field_errors_level_ok)
next
  show "skip_unset_validation func Unset = Inr Unset"
    by (simp add: skip_unset_validation_def)
next
  show "validate_optimization_level Unset = Inr Unset"
    by (simp add: validate_optimization_level_def skip_unset_validation_def)
next
  show "validate_resilience_level Unset = Inr Unset"
    by (simp add: validate_resilience_level_def skip_unset_validation_def)
next
  show "setattr self (Set_optimization_level Unset) =
      (if needs_coupling_map self then Inl (ValidationError [coupling_map_msg])
       else Inr (self\<lparr>optimization_level := Unset\<rparr>))"
    by (simp add: setattr_eq field_errors_unset)
next
  show "setattr self (Set_resilience_level Unset) = Inr (self\<lparr>resilience_level := Unset\<rparr>)"
    by (simp add: setattr_eq field_errors_unset needs_coupling_map_def)
qed

theorem level_assignment_witness:
  "((7::int) < 0 \<or> 3 < (7::int))
   \<and> setattr default_options (Set_optimization_level (Value 7)) = Inl (ValidationError [level_range_msg])
   \<and> setattr default_options (Set_resilience_level (Value 7)) = Inl (ValidationError [level_range_msg])
   \<and> (0::int) \<le> 2 \<and> (2::int) \<le> 3
   \<and> setattr default_options (Set_optimization_level (Value 2)) =
       Inr (default_options\<lparr>optimization_level := Value 2\<rparr>)
   \<and> setattr default_options (Set_resilience_level (Value 2)) =
       Inr (default_options\<lparr>resilience_level := Value 2\<rparr>)
   \<and> (0::int) \<le> 3 \<and> (3::int) \<le> 3
   \<and> setattr (default_options\<lparr>is_simulator := True\<rparr>) (Set_resilience_level (Value 3)) =
       Inl (ValidationError [coupling_map_msg])
   \<and> setattr (default_options\<lparr>is_simulator := True, resilience_level := Value 3\<rparr>)
         (Set_optimization_level (Value 3)) =
       Inl (ValidationError [coupling_map_msg])"
proof -
  let ?s = "default_options\<lparr>is_simulator := True\<rparr>"
  let ?t = "default_options\<lparr>is_simulator := True, resilience_level := Value 3\<rparr>"
  have bad: "(7::int) < 0 \<or> 3 < (7::int)" by simp
  have ok2: "(0::int) \<le> 2 \<and> (2::int) \<le> 3" and ok3: "(0::int) \<le> 3 \<and> (3::int) \<le> 3"
    by simp_all
  have r1: "\<not> needs_coupling_map default_options"
    and r2: "\<not> needs_coupling_map (default_options\<lparr>resilience_level := Value 2\<rparr>)"
    and r3: "needs_coupling_map (?s\<lparr>resilience_level := Value 3\<rparr>)"
    and r4: "needs_coupling_map ?t"
    by (simp_all add: default_options_def needs_coupling_map_def)
  from level_assignment [of 7 default_options validate_optimization_level_body] bad
  have high: "setattr default_options (Set_optimization_level (Value 7)) =
        Inl (ValidationError [level_range_msg])
      \<and> setattr default_options (Set_resilience_level (Value 7)) =
        Inl (ValidationError [level_range_msg])"
    by blast
  from level_assignment [of 2 default_options validate_optimization_level_body] ok2 r1 r2
  have mid: "setattr default_options (Set_optimization_level (Value 2)) =
        Inr (default_options\<lparr>optimization_level := Value 2\<rparr>)
      \<and> setattr default_options (Set_resilience_level (Value 2)) =
        Inr (default_options\<lparr>resilience_level := Value 2\<rparr>)"
    by simp
  from level_assignment [of 3 ?s validate_optimization_level_body] ok3 r3
  have rej: "setattr ?s (Set_resilience_level (Value 3)) = Inl (ValidationError [coupling_map_msg])"
    by simp
  from level_assignment [of 3 ?t validate_optimization_level_body] ok3 r4
  have rej2: "setattr ?t (Set_optimization_level (Value 3)) = Inl (ValidationError [coupling_map_msg])"
    by simp
  from bad high ok2 mid ok3 rej rej2 show ?thesis by blast
qed

section \<open>Properties of the runtime session\<close>

lemma session_write_closed:
  "\<not> active self \<Longrightarrow> session_write rt (e, self) kwargs = ((e, self), Inl (RuntimeError closed_msg))"
  by simp

lemma session_read_closed:
  "\<not> active self \<Longrightarrow> session_read rt (e, self) args = ((e, self), Inl (RuntimeError closed_msg))"
  by simp

lemma session_write_active:
  assumes "active self"
  shows "session_write rt (e, self) kwargs =
     (let call = write_call e self kwargs;
          r = run rt (remote e) call;
          e' = e\<lparr>heap := heap e @ [run_inputs call], remote := fst r,
                 run_log := run_log e @ [(call, snd r)]\<rparr>
      in (case snd r of
            Inl err \<Rightarrow> ((e', self), Inl err)
          | Inr j \<Rightarrow>
              ((e', self\<lparr>job := Some j, session_id := session_id_after (session_id self) [snd r]\<rparr>),
               Inr ())))"
  using assms
  by (auto simp add: copy_copy_def write_call_def Let_def session_id_after_def nth_append
      split: prod.splits sum.splits option.splits)

lemma session_id_after_append:
  "session_id_after sid (xs @ ys) = session_id_after (session_id_after sid xs) ys"
proof (cases sid)
  case (Some x)
  then show ?thesis by (simp add: session_id_after_def)
next
  case None
  have "first_job_id (xs @ ys) = session_id_after (first_job_id xs) ys"
    by (induction xs rule: first_job_id.induct) (simp_all add: session_id_after_def)
  with None show ?thesis by (simp add: session_id_after_def)
qed

lemma write_all_snoc:
  "write_all rt es (kws @ [kwargs]) = fst (session_write rt (write_all rt es kws) kwargs)"
  by (simp add: write_all_def)

declare session_write.simps [simp del]

text \<open>One write from an active session.\<close>

lemma session_write_step:
  assumes "active self"
  obtains c out e' self' r where
    "session_write rt (e, self) kwargs = ((e', self'), r)"
    "run_log e' = run_log e @ [(c, out)]"
    "c = write_call e self kwargs"
    "heap e' = heap e @ [run_inputs c]"
    "active self'"
    "initial_inputs self' = initial_inputs self"
    "session_id self' = session_id_after (session_id self) [out]"
proof -
  let ?c = "write_call e self kwargs"
  let ?r = "run rt (remote e) ?c"
  let ?e = "e\<lparr>heap := heap e @ [run_inputs ?c], remote := fst ?r,
                 run_log := run_log e @ [(?c, snd ?r)]\<rparr>"
  show ?thesis
  proof (cases "snd ?r")
    case (Inl err)
    have "session_write rt (e, self) kwargs = ((?e, self), Inl err)"
      using assms Inl by (simp add: session_write_active Let_def)
    moreover have "session_id self = session_id_after (session_id self) [snd ?r]"
      using Inl by (simp add: session_id_after_def split: option.splits)
    ultimately show ?thesis
      using assms by (intro that [of ?e self "Inl err" ?c "snd ?r"]) simp_all
  next
    case (Inr j)
    let ?s = "self\<lparr>job := Some j, session_id := session_id_after (session_id self) [snd ?r]\<rparr>"
    have "session_write rt (e, self) kwargs = ((?e, ?s), Inr ())"
      using assms Inr by (simp add: session_write_active Let_def)
    then show ?thesis
      using assms by (intro that [of ?e ?s "Inr ()" ?c "snd ?r"]) simp_all
  qed
qed

lemma write_all_trace:
  assumes "active self"
  shows "\<exists>new. length new = length kws
    \<and> (\<forall>i\<le>length kws.
          run_log (fst (write_all rt (e, self) (take i kws))) = run_log e @ take i new
        \<and> heap (fst (write_all rt (e, self) (take i kws))) = heap e @ map (run_inputs \<circ> fst) (take i new)
        \<and> active (snd (write_all rt (e, self) (take i kws)))
        \<and> initial_inputs (snd (write_all rt (e, self) (take i kws))) = initial_inputs self
        \<and> session_id (snd (write_all rt (e, self) (take i kws))) =
            session_id_after (session_id self) (map snd (take i new)))
    \<and> (\<forall>i<length kws.
          fst (new ! i) = write_call (fst (write_all rt (e, self) (take i kws)))
                            (snd (write_all rt (e, self) (take i kws))) (kws ! i))"
proof (induction kws rule: rev_induct)
  case Nil
  show ?case using assms by (simp add: write_all_def session_id_after_def split: option.splits)
next
  case (snoc kwargs kws)
  then obtain new where len: "length new = length kws"
    and pre: "\<And>i. i \<le> length kws \<Longrightarrow>
          run_log (fst (write_all rt (e, self) (take i kws))) = run_log e @ take i new
        \<and> heap (fst (write_all rt (e, self) (take i kws))) = heap e @ map (run_inputs \<circ> fst) (take i new)
        \<and> active (snd (write_all rt (e, self) (take i kws)))
        \<and> initial_inputs (snd (write_all rt (e, self) (take i kws))) = initial_inputs self
        \<and> session_id (snd (write_all rt (e, self) (take i kws))) =
            session_id_after (session_id self) (map snd (take i new))"
    and calls: "\<And>i. i < length kws \<Longrightarrow>
          fst (new ! i) = write_call (fst (write_all rt (e, self) (take i kws)))
                            (snd (write_all rt (e, self) (take i kws))) (kws ! i)"
    by blast
  obtain e1 s1 where es1: "write_all rt (e, self) kws = (e1, s1)"
    by (cases "write_all rt (e, self) kws")
  from pre [of "length kws"] es1 len
  have log1: "run_log e1 = run_log e @ new"
    and heap1: "heap e1 = heap e @ map (run_inputs \<circ> fst) new"
    and act1: "active s1"
    and ini1: "initial_inputs s1 = initial_inputs self"
    and sid1: "session_id s1 = session_id_after (session_id self) (map snd new)"
    by simp_all
  from act1 obtain c out e2 s2 r where
    w: "session_write rt (e1, s1) kwargs = ((e2, s2), r)"
    and log2: "run_log e2 = run_log e1 @ [(c, out)]"
    and c: "c = write_call e1 s1 kwargs"
    and heap2: "heap e2 = heap e1 @ [run_inputs c]"
    and act2: "active s2"
    and ini2: "initial_inputs s2 = initial_inputs s1"
    and sid2: "session_id s2 = session_id_after (session_id s1) [out]"
    by (rule session_write_step)
  have all2: "write_all rt (e, self) (kws @ [kwargs]) = (e2, s2)"
    by (simp add: write_all_snoc es1 w)
  let ?new = "new @ [(c, out)]"
  have "length ?new = length (kws @ [kwargs])" using len by simp
  moreover have "\<forall>i\<le>length (kws @ [kwargs]).
          run_log (fst (write_all rt (e, self) (take i (kws @ [kwargs])))) = run_log e @ take i ?new
        \<and> heap (fst (write_all rt (e, self) (take i (kws @ [kwargs])))) =
            heap e @ map (run_inputs \<circ> fst) (take i ?new)
        \<and> active (snd (write_all rt (e, self) (take i (kws @ [kwargs]))))
        \<and> initial_inputs (snd (write_all rt (e, self) (take i (kws @ [kwargs])))) = initial_inputs self
        \<and> session_id (snd (write_all rt (e, self) (take i (kws @ [kwargs])))) =
            session_id_after (session_id self) (map snd (take i ?new))"
  proof (intro allI impI)
    fix i assume i: "i \<le> length (kws @ [kwargs])"
    show "run_log (fst (write_all rt (e, self) (take i (kws @ [kwargs])))) = run_log e @ take i ?new
        \<and> heap (fst (write_all rt (e, self) (take i (kws @ [kwargs])))) =
            heap e @ map (run_inputs \<circ> fst) (take i ?new)
        \<and> active (snd (write_all rt (e, self) (take i (kws @ [kwargs]))))
        \<and> initial_inputs (snd (write_all rt (e, self) (take i (kws @ [kwargs])))) = initial_inputs self
        \<and> session_id (snd (write_all rt (e, self) (take i (kws @ [kwargs])))) =
            session_id_after (session_id self) (map snd (take i ?new))"
    proof (cases "i \<le> length kws")
      case True
      with pre [of i] len show ?thesis by simp
    next
      case False
      with i have "i = Suc (length kws)" by simp
      then show ?thesis
        using all2 len log1 log2 heap1 heap2 act2 ini1 ini2 sid1 sid2
        by (simp add: session_id_after_append)
    qed
  qed
  moreover have "\<forall>i<length (kws @ [kwargs]).
          fst (?new ! i) = write_call (fst (write_all rt (e, self) (take i (kws @ [kwargs]))))
                            (snd (write_all rt (e, self) (take i (kws @ [kwargs])))) ((kws @ [kwargs]) ! i)"
  proof (intro allI impI)
    fix i assume i: "i < length (kws @ [kwargs])"
    show "fst (?new ! i) = write_call (fst (write_all rt (e, self) (take i (kws @ [kwargs]))))
                            (snd (write_all rt (e, self) (take i (kws @ [kwargs])))) ((kws @ [kwargs]) ! i)"
    proof (cases "i < length kws")
      case True
      with calls [of i] len show ?thesis by (simp add: nth_append)
    next
      case False
      with i have "i = length kws" by simp
      then show ?thesis using len c es1 by (simp add: nth_append)
    qed
  qed
  ultimately show ?case by blast
qed


lemma session_id_after_mono:
  assumes "session_id_after sid (take i rs) = Some x" and "i \<le> k"
  shows "session_id_after sid (take k rs) = Some x"
proof -
  from assms(2) have "take k rs = take i rs @ take (k - i) (drop i rs)"
    by (metis le_add_diff_inverse take_add)
  then show ?thesis
    using assms(1) by (simp add: session_id_after_append) (simp add: session_id_after_def)
qed

text \<open>
  C1. Take any sequence of writes on an active session that has no session id yet, whatever
  the service returns or raises. Every write makes one call of \<open>service.run\<close>, and the
  call carries the session id the session has at that moment: none for the first call.
  After any number of the writes, the session id is the id of the first job the service
  returned (none while no job was returned), and once set it stays the same through all
  later writes. So every job after the first is submitted under the first job's id.
\<close>

theorem write_sequence_shares_session_id:
  assumes "active self" and "session_id self = None"
  shows "length (new_calls e (fst (write_all rt (e, self) kws))) = length kws
    \<and> (\<forall>i<length kws.
          run_session_id (fst (new_calls e (fst (write_all rt (e, self) kws)) ! i)) =
            session_id (snd (write_all rt (e, self) (take i kws))))
    \<and> (\<forall>i\<le>length kws.
          session_id (snd (write_all rt (e, self) (take i kws))) =
            first_job_id (map snd (take i (new_calls e (fst (write_all rt (e, self) kws))))))
    \<and> (\<forall>i k x. i \<le> k \<and> k \<le> length kws
          \<and> session_id (snd (write_all rt (e, self) (take i kws))) = Some x \<longrightarrow>
          session_id (snd (write_all rt (e, self) (take k kws))) = Some x)"
proof -
  from write_all_trace [OF assms(1), of kws rt e] obtain new where
    len: "length new = length kws"
    and pre: "\<And>i. i \<le> length kws \<Longrightarrow>
          run_log (fst (write_all rt (e, self) (take i kws))) = run_log e @ take i new
        \<and> session_id (snd (write_all rt (e, self) (take i kws))) =
            session_id_after (session_id self) (map snd (take i new))"
    and calls: "\<And>i. i < length kws \<Longrightarrow>
          fst (new ! i) = write_call (fst (write_all rt (e, self) (take i kws)))
                            (snd (write_all rt (e, self) (take i kws))) (kws ! i)"
    by blast
  from pre [of "length kws"] len
  have new: "new_calls e (fst (write_all rt (e, self) kws)) = new"
    by (simp add: new_calls_def)
  have sid: "session_id (snd (write_all rt (e, self) (take i kws))) = first_job_id (map snd (take i new))"
    if "i \<le> length kws" for i
    using pre [OF that] assms(2) by (simp add: session_id_after_def)
  have sent: "run_session_id (fst (new ! i)) = session_id (snd (write_all rt (e, self) (take i kws)))"
    if "i < length kws" for i
    using calls [OF that] by (simp add: write_call_def)
  have mono: "session_id (snd (write_all rt (e, self) (take k kws))) = Some x"
    if "i \<le> k" "k \<le> length kws" "session_id (snd (write_all rt (e, self) (take i kws))) = Some x"
    for i k x
  proof -
    from that have "session_id_after None (take i (map snd new)) = Some x"
      by (simp add: sid session_id_after_def take_map)
    then have "session_id_after None (take k (map snd new)) = Some x"
      using that(1) by (rule session_id_after_mono)
    then show ?thesis using that(2) by (simp add: sid session_id_after_def take_map)
  qed
  show ?thesis
    unfolding new using len sid sent mono by blast
qed


text \<open>Two writes on the example session, evaluated.\<close>

lemma stub_two_writes:
  "write_all stub_runtime (stub_env, stub_session) [[], [(''shots'', PInt 2)]] =
     (\<lparr>heap = [[(''circuits'', PInt 1)], [(''circuits'', PInt 1)],
               [(''circuits'', PInt 1), (''shots'', PInt 2)]],
       remote = 2,
       run_log =
         [(\<lparr>run_program_id = ''prog'', run_options = OptionsNone,
             run_inputs = [(''circuits'', PInt 1)], run_session_id = None\<rparr>,
           Inr \<lparr>job_id = ''j''\<rparr>),
          (\<lparr>run_program_id = ''prog'', run_options = OptionsNone,
             run_inputs = [(''circuits'', PInt 1), (''shots'', PInt 2)],
             run_session_id = Some ''j''\<rparr>,
           Inr \<lparr>job_id = ''jj''\<rparr>)]\<rparr>,
      stub_session\<lparr>job := Some \<lparr>job_id = ''jj''\<rparr>, session_id := Some ''j''\<rparr>)"
  by (simp add: write_all_def session_write.simps copy_copy_def dict_update_def
      stub_runtime_def stub_env_def stub_session_def RuntimeSession_init_def Let_def
      numeral_2_eq_2)

lemma stub_env_log: "run_log stub_env = []"
  by (simp add: stub_env_def)

theorem write_sequence_shares_session_id_witness:
  "active stub_session \<and> session_id stub_session = None
   \<and> length (new_calls stub_env
        (fst (write_all stub_runtime (stub_env, stub_session) [[], [(''shots'', PInt 2)]]))) = 2
   \<and> map (run_session_id \<circ> fst) (new_calls stub_env
        (fst (write_all stub_runtime (stub_env, stub_session) [[], [(''shots'', PInt 2)]]))) =
       [None, Some ''j'']
   \<and> session_id (snd (write_all stub_runtime (stub_env, stub_session) [[], [(''shots'', PInt 2)]])) =
       first_job_id [Inr \<lparr>job_id = ''j''\<rparr>, Inr \<lparr>job_id = ''jj''\<rparr>]"
proof -
  have a: "active stub_session" and n: "session_id stub_session = None"
    by (simp_all add: stub_session_def RuntimeSession_init_def)
  note t = write_sequence_shares_session_id
    [OF a n, of stub_env stub_runtime "[[], [(''shots'', PInt 2)]]"]
  from t have len: "length (new_calls stub_env
        (fst (write_all stub_runtime (stub_env, stub_session) [[], [(''shots'', PInt 2)]]))) = 2"
    by simp
  from t have "session_id (snd (write_all stub_runtime (stub_env, stub_session)
        (take 2 [[], [(''shots'', PInt 2)]]))) =
      first_job_id (map snd (take 2 (new_calls stub_env
        (fst (write_all stub_runtime (stub_env, stub_session) [[], [(''shots'', PInt 2)]])))))"
    by (metis length_Cons list.size(3) numeral_2_eq_2 order_refl)
  then have sid: "session_id (snd (write_all stub_runtime (stub_env, stub_session)
        [[], [(''shots'', PInt 2)]])) =
      first_job_id [Inr \<lparr>job_id = ''j''\<rparr>, Inr \<lparr>job_id = ''jj''\<rparr>]"
    by (simp add: stub_two_writes new_calls_def stub_env_log)
  have calls: "map (run_session_id \<circ> fst) (new_calls stub_env
        (fst (write_all stub_runtime (stub_env, stub_session) [[], [(''shots'', PInt 2)]]))) =
       [None, Some ''j'']"
    by (simp add: stub_two_writes new_calls_def stub_env_log)
  from a n len calls sid show ?thesis by blast
qed


text \<open>
  C10. Writes never change the dict the session was given as initial inputs, nor any dict
  that existed before: the session still refers to the same object and its items are the
  same after any sequence of writes. The inputs submitted by each write are the items of
  the initial inputs updated with the keyword arguments of that write alone, so the
  overrides of one write do not reach a later one.
\<close>

theorem write_keeps_initial_inputs:
  assumes "active self" and "initial_inputs self < length (heap e)"
  shows "initial_inputs (snd (write_all rt (e, self) kws)) = initial_inputs self
    \<and> (\<forall>r<length (heap e). heap (fst (write_all rt (e, self) kws)) ! r = heap e ! r)
    \<and> (\<forall>i<length kws.
          run_inputs (fst (new_calls e (fst (write_all rt (e, self) kws)) ! i)) =
            dict_update (heap e ! initial_inputs self) (kws ! i))"
proof -
  from write_all_trace [OF assms(1), of kws rt e] obtain new where
    len: "length new = length kws"
    and pre: "\<And>i. i \<le> length kws \<Longrightarrow>
          run_log (fst (write_all rt (e, self) (take i kws))) = run_log e @ take i new
        \<and> heap (fst (write_all rt (e, self) (take i kws))) = heap e @ map (run_inputs \<circ> fst) (take i new)
        \<and> initial_inputs (snd (write_all rt (e, self) (take i kws))) = initial_inputs self"
    and calls: "\<And>i. i < length kws \<Longrightarrow>
          fst (new ! i) = write_call (fst (write_all rt (e, self) (take i kws)))
                            (snd (write_all rt (e, self) (take i kws))) (kws ! i)"
    by blast
  from pre [of "length kws"] len
  have new: "new_calls e (fst (write_all rt (e, self) kws)) = new"
    and hp: "heap (fst (write_all rt (e, self) kws)) = heap e @ map (run_inputs \<circ> fst) new"
    and ini: "initial_inputs (snd (write_all rt (e, self) kws)) = initial_inputs self"
    by (simp_all add: new_calls_def)
  have old: "heap (fst (write_all rt (e, self) kws)) ! r = heap e ! r" if "r < length (heap e)" for r
    using that by (simp add: hp nth_append)
  have inp: "run_inputs (fst (new ! i)) = dict_update (heap e ! initial_inputs self) (kws ! i)"
    if "i < length kws" for i
  proof -
    from that have "i \<le> length kws" by simp
    from pre [OF this] assms(2) show ?thesis
      by (simp add: calls [OF that] write_call_def nth_append)
  qed
  show ?thesis unfolding new using ini old inp by blast
qed

theorem write_keeps_initial_inputs_witness:
  "active stub_session \<and> initial_inputs stub_session < length (heap stub_env)
   \<and> heap (fst (write_all stub_runtime (stub_env, stub_session) [[(''shots'', PInt 2)], []])) ! 0 =
       [(''circuits'', PInt 1)]
   \<and> run_inputs (fst (new_calls stub_env
        (fst (write_all stub_runtime (stub_env, stub_session) [[(''shots'', PInt 2)], []])) ! 0)) =
       [(''circuits'', PInt 1), (''shots'', PInt 2)]
   \<and> run_inputs (fst (new_calls stub_env
        (fst (write_all stub_runtime (stub_env, stub_session) [[(''shots'', PInt 2)], []])) ! 1)) =
       [(''circuits'', PInt 1)]"
proof -
  have a: "active stub_session" and v: "initial_inputs stub_session < length (heap stub_env)"
    by (simp_all add: stub_session_def stub_env_def RuntimeSession_init_def)
  have h0: "heap stub_env ! initial_inputs stub_session = [(''circuits'', PInt 1)]"
    by (simp add: stub_session_def stub_env_def RuntimeSession_init_def)
  note t = write_keeps_initial_inputs
    [OF a v, of stub_runtime "[[(''shots'', PInt 2)], []]"]
  from t v have "heap (fst (write_all stub_runtime (stub_env, stub_session)
      [[(''shots'', PInt 2)], []])) ! initial_inputs stub_session =
      heap stub_env ! initial_inputs stub_session"
    by blast
  then have c1: "heap (fst (write_all stub_runtime (stub_env, stub_session)
      [[(''shots'', PInt 2)], []])) ! 0 = [(''circuits'', PInt 1)]"
    by (simp add: h0) (simp add: stub_session_def RuntimeSession_init_def)
  from t have "run_inputs (fst (new_calls stub_env
        (fst (write_all stub_runtime (stub_env, stub_session) [[(''shots'', PInt 2)], []])) ! 0)) =
      dict_update (heap stub_env ! initial_inputs stub_session) ([[(''shots'', PInt 2)], []] ! 0)"
    by simp
  then have c2: "run_inputs (fst (new_calls stub_env
        (fst (write_all stub_runtime (stub_env, stub_session) [[(''shots'', PInt 2)], []])) ! 0)) =
       [(''circuits'', PInt 1), (''shots'', PInt 2)]"
    by (simp add: h0 dict_update_def)
  from t have "run_inputs (fst (new_calls stub_env
        (fst (write_all stub_runtime (stub_env, stub_session) [[(''shots'', PInt 2)], []])) ! 1)) =
      dict_update (heap stub_env ! initial_inputs stub_session) ([[(''shots'', PInt 2)], []] ! 1)"
    by simp
  then have c3: "run_inputs (fst (new_calls stub_env
        (fst (write_all stub_runtime (stub_env, stub_session) [[(''shots'', PInt 2)], []])) ! 1)) =
       [(''circuits'', PInt 1)]"
    by (simp add: h0 dict_update_def)
  from a v c1 c2 c3 show ?thesis by blast
qed

text \<open>No call re-opens a session, and a closed session submits nothing.\<close>

lemma call_session_inactive:
  assumes "\<not> active self"
  shows "\<not> active (snd (call_session rt (e, self) c))
    \<and> run_log (fst (call_session rt (e, self) c)) = run_log e
    \<and> heap (fst (call_session rt (e, self) c)) = heap e"
proof (cases c)
  case (Write kwargs)
  with assms show ?thesis by (simp add: session_write_closed)
next
  case (Read args)
  with assms show ?thesis by simp
next
  case Info
  with assms show ?thesis
    by (simp add: Let_def split: session_options.splits option.splits prod.splits sum.splits)
next
  case Close
  then show ?thesis by (simp add: session_close_def)
next
  case Enter
  with assms show ?thesis by (simp add: session_enter_def)
next
  case Exit
  then show ?thesis by (simp add: session_exit_def)
qed

lemma call_all_inactive:
  "\<not> active self \<Longrightarrow>
     \<not> active (snd (call_all rt (e, self) cs))
     \<and> run_log (fst (call_all rt (e, self) cs)) = run_log e
     \<and> heap (fst (call_all rt (e, self) cs)) = heap e"
proof (induction cs arbitrary: e self)
  case Nil
  then show ?case by (simp add: call_all_def)
next
  case (Cons c cs)
  obtain e1 s1 where es1: "call_session rt (e, self) c = (e1, s1)"
    by (cases "call_session rt (e, self) c")
  from call_session_inactive [OF Cons.prems, of rt e c] es1
  have s1: "\<not> active s1" and l1: "run_log e1 = run_log e" and h1: "heap e1 = heap e"
    by simp_all
  from Cons.IH [OF s1, of e1] l1 h1 show ?case
    by (simp add: call_all_def es1)
qed

text \<open>
  C3. Once a session has been closed, by \<open>close\<close> or by leaving its scope, and whatever
  calls were made on it before or are made after, \<open>write\<close> and \<open>read\<close> raise the
  closed-session error and leave the state as it is: no call of \<open>service.run\<close> is added
  to the log. The session's job plays no part, so a completed job from an earlier write
  changes nothing.
\<close>

theorem closed_session_rejects_write_and_read:
  "session_write rt (call_all rt (e, session_close self) cs) kwargs =
     (call_all rt (e, session_close self) cs, Inl (RuntimeError closed_msg))
   \<and> session_read rt (call_all rt (e, session_close self) cs) args =
     (call_all rt (e, session_close self) cs, Inl (RuntimeError closed_msg))
   \<and> run_log (fst (call_all rt (e, session_close self) cs)) = run_log e
   \<and> session_write rt (call_all rt (e, session_exit self) cs) kwargs =
     (call_all rt (e, session_exit self) cs, Inl (RuntimeError closed_msg))
   \<and> session_read rt (call_all rt (e, session_exit self) cs) args =
     (call_all rt (e, session_exit self) cs, Inl (RuntimeError closed_msg))
   \<and> run_log (fst (call_all rt (e, session_exit self) cs)) = run_log e"
proof -
  have closed: "session_write rt (call_all rt (e, s) cs) kwargs =
       (call_all rt (e, s) cs, Inl (RuntimeError closed_msg))
     \<and> session_read rt (call_all rt (e, s) cs) args =
       (call_all rt (e, s) cs, Inl (RuntimeError closed_msg))
     \<and> run_log (fst (call_all rt (e, s) cs)) = run_log e" if "\<not> active s" for s
  proof -
    obtain e1 s1 where es1: "call_all rt (e, s) cs = (e1, s1)"
      by (cases "call_all rt (e, s) cs")
    from call_all_inactive [OF that, of rt e cs] es1
    have "\<not> active s1" and "run_log e1 = run_log e" by simp_all
    then show ?thesis by (simp add: es1 session_write_closed)
  qed
  have "\<not> active (session_close self)" and "\<not> active (session_exit self)"
    by (simp_all add: session_close_def session_exit_def)
  then show ?thesis using closed by blast
qed

text \<open>
  \<open>info\<close> leaves the session, the dicts and the log of submissions as they are; only
  the call of \<open>job.status\<close> may change the remote state.
\<close>

lemma session_info_frame:
  "snd (fst (session_info rt (e, self))) = self
   \<and> heap (fst (fst (session_info rt (e, self)))) = heap e
   \<and> run_log (fst (fst (session_info rt (e, self)))) = run_log e"
  by (simp add: Let_def split: session_options.splits option.splits prod.splits sum.splits)

text \<open>
  C9 does not hold of the code: \<open>info\<close> raises \<open>AttributeError\<close> on a session built with
  the default \<open>options=None\<close>, and on every session that the estimator front end returns,
  because the front end passes a dict and neither has an attribute \<open>backend_name\<close>.
\<close>

theorem info_fails_without_options_object:
  "session_info rt (e, RuntimeSession_init prog inputs OptionsNone) =
     ((e, RuntimeSession_init prog inputs OptionsNone), Inl (AttributeError ''backend_name''))
   \<and> session_info rt (IBMEstimator_call e backend circuits observables grouping transpile_options) =
     (IBMEstimator_call e backend circuits observables grouping transpile_options,
      Inl (AttributeError ''backend_name''))"
  by (simp add: RuntimeSession_init_def IBMEstimator_call_def Let_def)


section \<open>Properties of the fake runtime client\<close>

text \<open>Looking a job up after its thread has taken steps, and after it was submitted.\<close>

lemma get_job_ticks:
  "get_job (ticks n jid c) jid = map_sum id (thread_step ^^ n) (get_job c jid)"
proof (induction n)
  case 0
  show ?case by (simp add: ticks_def get_job_def split: option.splits)
next
  case (Suc n)
  have "get_job (tick jid (ticks n jid c)) jid = map_sum id thread_step (get_job (ticks n jid c) jid)"
    by (simp add: get_job_def tick_def map_of_map_entry split: option.splits)
  with Suc show ?case
    by (simp add: ticks_def) (cases "get_job c jid"; simp)
qed

lemma get_job_program_run:
  assumes "new_job (case c_job_classes c of [] \<Rightarrow> BaseFakeRuntimeJob | cls # rest \<Rightarrow> cls)
      \<lparr>a_job_id = jid, a_program_id = prog, a_hub = py_or (c_hub c) (cred_hub creds),
       a_group = py_or (c_group c) (cred_group creds),
       a_project = py_or (c_project c) (cred_project creds), a_backend_name = backend,
       a_final_status = c_final_status c, a_params = params, a_image = img\<rparr>
      (c_job_kwargs c) = Inr j"
  shows "snd (program_run c jid prog creds backend params img) = Inr jid"
    and "get_job (fst (program_run c jid prog creds backend params img)) jid = Inr j"
  using assms by (simp_all add: program_run_def Let_def get_job_def update_conv')

lemma default_client_run:
  "snd (program_run default_client jid prog creds backend params img) = Inr jid"
  "get_job (fst (program_run default_client jid prog creds backend params img)) jid =
     Inr (default_job jid prog creds backend params img)"
  by (simp_all add: program_run_def Let_def get_job_def update_conv' default_client_def
      BaseFakeRuntimeClient_init_def new_job_def py_or_def truthy_def default_job_def)

lemma funpow_fixed: "f x = x \<Longrightarrow> (f ^^ k) x = x"
  by (induction k) simp_all

text \<open>
  The whole progress of a default job: status and result after any number of steps of
  its thread.
\<close>

lemma default_job_steps:
  "j_status ((thread_step ^^ n) (default_job jid prog creds backend params img)) =
     (if n < 3 then ''QUEUED'' else if n = 3 then ''RUNNING'' else ''COMPLETED'')"
  "j_result ((thread_step ^^ n) (default_job jid prog creds backend params img)) =
     (if n < 5 then Attr None else Attr (Some (json_dumps ''foo'')))"
proof -
  let ?j = "default_job jid prog creds backend params img"
  let ?done = "(thread_step ^^ 6) ?j"
  have six: "j_status ?done = ''COMPLETED'' \<and> j_result ?done = Attr (Some (json_dumps ''foo''))
      \<and> thread_step ?done = ?done"
    by (simp add: eval_nat_numeral default_job_def BaseFakeRuntimeJob_init_def
        thread_step_def base_auto_progress_def)
  have later: "(thread_step ^^ (k + 6)) ?j = ?done" for k
    using six by (simp add: funpow_add funpow_fixed)
  have small: "n < 6 \<Longrightarrow>
      j_status ((thread_step ^^ n) ?j) =
        (if n < 3 then ''QUEUED'' else if n = 3 then ''RUNNING'' else ''COMPLETED'')
      \<and> j_result ((thread_step ^^ n) ?j) =
        (if n < 5 then Attr None else Attr (Some (json_dumps ''foo'')))"
  proof -
    assume "n < 6"
    then consider "n = 0" | "n = 1" | "n = 2" | "n = 3" | "n = 4" | "n = 5" by linarith
    then show ?thesis
      by cases (simp_all add: eval_nat_numeral default_job_def BaseFakeRuntimeJob_init_def
          thread_step_def base_auto_progress_def)
  qed
  have both: "j_status ((thread_step ^^ n) ?j) =
        (if n < 3 then ''QUEUED'' else if n = 3 then ''RUNNING'' else ''COMPLETED'')
      \<and> j_result ((thread_step ^^ n) ?j) =
        (if n < 5 then Attr None else Attr (Some (json_dumps ''foo'')))"
  proof (cases "n < 6")
    case True
    then show ?thesis by (rule small)
  next
    case False
    then have "n = (n - 6) + 6" by simp
    then have "(thread_step ^^ n) ?j = ?done" using later [of "n - 6"] by simp
    with six False show ?thesis by simp
  qed
  from both show "j_status ((thread_step ^^ n) ?j) =
     (if n < 3 then ''QUEUED'' else if n = 3 then ''RUNNING'' else ''COMPLETED'')" by simp
  from both show "j_result ((thread_step ^^ n) ?j) =
     (if n < 5 then Attr None else Attr (Some (json_dumps ''foo'')))" by simp
qed


lemma exec_stmt_frame:
  "j_class (exec_stmt j st) = j_class j" "j_cancelled (exec_stmt j st) = j_cancelled j"
  "j_future (exec_stmt j st) = j_future j"
  by (cases st; simp)+

lemma thread_step_frame:
  "j_class (thread_step j) = j_class j" "j_cancelled (thread_step j) = j_cancelled j"
  by (simp_all add: thread_step_def exec_stmt_frame
      split: attr.splits future_state.splits list.splits)

lemma thread_steps_frame:
  "j_class ((thread_step ^^ n) j) = j_class j" "j_cancelled ((thread_step ^^ n) j) = j_cancelled j"
  by (induction n) (simp_all add: thread_step_frame)

lemma job_get_status:
  "map_sum id d_status (job_get c jid) =
     map_sum id (\<lambda>j. if j_class j = CancelableRuntimeJob \<and> j_cancelled j then ''CANCELLED''
                      else j_status j) (get_job c jid)"
  by (cases "get_job c jid") (simp_all add: job_get_def to_dict_def base_to_dict_def)

text \<open>
  What the client reports of a default job at every point. The statuses come in the order
  \<open>QUEUED\<close>, \<open>RUNNING\<close>, \<open>COMPLETED\<close> and never go back, and there is no result while
  the status is not \<open>COMPLETED\<close>.
\<close>

lemma default_job_progress:
  "map_sum id d_status
     (job_get (ticks n jid (fst (program_run default_client jid prog creds backend params img))) jid) =
     Inr (if n < 3 then ''QUEUED'' else if n = 3 then ''RUNNING'' else ''COMPLETED'')"
  "job_results (ticks n jid (fst (program_run default_client jid prog creds backend params img))) jid =
     Inr (if n < 5 then None else Some (json_dumps ''foo''))"
proof -
  have cls: "j_class (default_job jid prog creds backend params img) = BaseFakeRuntimeJob"
    by (simp add: default_job_def BaseFakeRuntimeJob_init_def)
  show "map_sum id d_status
     (job_get (ticks n jid (fst (program_run default_client jid prog creds backend params img))) jid) =
     Inr (if n < 3 then ''QUEUED'' else if n = 3 then ''RUNNING'' else ''COMPLETED'')"
    by (simp only: job_get_status get_job_ticks default_client_run)
       (simp add: thread_steps_frame cls default_job_steps)
  show "job_results (ticks n jid (fst (program_run default_client jid prog creds backend params img))) jid =
     Inr (if n < 5 then None else Some (json_dumps ''foo''))"
    by (simp add: job_results_def get_job_ticks default_client_run job_result_method_def
        default_job_steps)
qed

text \<open>
  C4 fails at one point. The thread assigns the status \<open>COMPLETED\<close> in its loop and the
  result in the statement after the loop: between the two, the job reports \<open>COMPLETED\<close>
  and its result is still \<open>None\<close>.
\<close>

theorem default_job_completed_before_result:
  "map_sum id d_status
     (job_get (ticks 4 jid (fst (program_run default_client jid prog creds backend params img))) jid) =
     Inr ''COMPLETED''
   \<and> job_results (ticks 4 jid (fst (program_run default_client jid prog creds backend params img))) jid =
     Inr None"
  by (simp add: default_job_progress)


text \<open>A cancelable job stays pending as long as nobody cancels it.\<close>

lemma cancelable_pending_step:
  assumes "cancelable_pending j"
  shows "cancelable_pending (thread_step j)"
proof -
  from assms obtain f where f: "j_future j = Attr f"
    by (auto simp add: cancelable_pending_def split: attr.splits)
  show ?thesis
  proof (cases "fut_state f")
    case FutRunning
    show ?thesis
    proof (cases "fut_todo f")
      case Nil
      with assms f FutRunning show ?thesis
        by (simp add: cancelable_pending_def thread_step_def)
    next
      case (Cons st rest)
      with assms f FutRunning show ?thesis
        by (auto simp add: cancelable_pending_def thread_step_def)
    qed
  qed (use assms f in \<open>simp_all add: cancelable_pending_def thread_step_def\<close>)
qed

lemma cancelable_pending_steps:
  "cancelable_pending j \<Longrightarrow> cancelable_pending ((thread_step ^^ n) j)"
  by (induction n) (simp_all add: cancelable_pending_step)

lemma cancelable_run:
  assumes "c_job_classes c = CancelableRuntimeJob # rest"
    and "c_final_status c = None" and "c_job_kwargs c = []"
  shows "snd (program_run c jid prog creds backend params img) = Inr jid
    \<and> (\<exists>j. get_job (fst (program_run c jid prog creds backend params img)) jid = Inr j
           \<and> cancelable_pending j)"
  using assms
  by (simp add: program_run_def Let_def get_job_def update_conv' new_job_def
      cancelable_pending_def BaseFakeRuntimeJob_init_def base_auto_progress_def)

lemma cancel_pending:
  assumes "get_job c jid = Inr j" and "cancelable_pending j"
  shows "map_sum id d_status (job_get c jid) \<in> {Inr ''QUEUED'', Inr ''RUNNING''}
    \<and> (\<exists>c2. job_cancel c jid = Inr c2
          \<and> (\<forall>m. map_sum id d_status (job_get (ticks m jid c2) jid) = Inr ''CANCELLED''))"
proof -
  from assms(2) obtain f where f: "j_future j = Attr f"
    and cls: "j_class j = CancelableRuntimeJob" and nc: "\<not> j_cancelled j"
    and st: "j_status j = ''QUEUED'' \<or> j_status j = ''RUNNING''"
    by (auto simp add: cancelable_pending_def split: attr.splits)
  let ?j = "j\<lparr>j_future := Attr (future_cancel f), j_cancelled := True\<rparr>"
  let ?c = "c\<lparr>c_jobs := AList.update jid ?j (c_jobs c)\<rparr>"
  have pend: "map_sum id d_status (job_get c jid) \<in> {Inr ''QUEUED'', Inr ''RUNNING''}"
    using assms(1) cls nc st by (auto simp add: job_get_status)
  have canc: "job_cancel c jid = Inr ?c"
    using assms(1) f cls by (simp add: job_cancel_def job_cancel_method_def)
  have got: "get_job ?c jid = Inr ?j"
    by (simp add: get_job_def update_conv')
  have "map_sum id d_status (job_get (ticks m jid ?c) jid) = Inr ''CANCELLED''" for m
    by (simp only: job_get_status get_job_ticks got)
       (simp add: thread_steps_frame cls)
  with pend canc show ?thesis by blast
qed

text \<open>
  C5, amended. A job of the cancelable class, submitted with no preset final status, is
  pending (\<open>QUEUED\<close> or \<open>RUNNING\<close>) at every point of its progress; cancelling it at any
  such point succeeds, and every status read after that reports \<open>CANCELLED\<close>, however far
  its thread still runs. A job of any other class has no \<open>cancel\<close>: cancelling it raises
  \<open>AttributeError\<close>.
\<close>

theorem cancel_on_cancelable_job:
  assumes "c_job_classes c = CancelableRuntimeJob # rest"
    and "c_final_status c = None" and "c_job_kwargs c = []"
  shows "snd (program_run c jid prog creds backend params img) = Inr jid
    \<and> map_sum id d_status
        (job_get (ticks n jid (fst (program_run c jid prog creds backend params img))) jid)
          \<in> {Inr ''QUEUED'', Inr ''RUNNING''}
    \<and> (\<exists>c2. job_cancel (ticks n jid (fst (program_run c jid prog creds backend params img))) jid = Inr c2
          \<and> (\<forall>m. map_sum id d_status (job_get (ticks m jid c2) jid) = Inr ''CANCELLED''))
    \<and> (get_job c' jid' = Inr j' \<and> j_class j' \<noteq> CancelableRuntimeJob \<longrightarrow>
          job_cancel c' jid' = Inl (AttributeError ''cancel''))"
proof -
  from cancelable_run [OF assms, of jid prog creds backend params img]
  obtain j where run: "snd (program_run c jid prog creds backend params img) = Inr jid"
    and j: "get_job (fst (program_run c jid prog creds backend params img)) jid = Inr j"
    and p: "cancelable_pending j"
    by blast
  have "get_job (ticks n jid (fst (program_run c jid prog creds backend params img))) jid =
      Inr ((thread_step ^^ n) j)"
    by (simp add: get_job_ticks j)
  moreover have "cancelable_pending ((thread_step ^^ n) j)"
    using p by (rule cancelable_pending_steps)
  ultimately have "map_sum id d_status
        (job_get (ticks n jid (fst (program_run c jid prog creds backend params img))) jid)
          \<in> {Inr ''QUEUED'', Inr ''RUNNING''}
    \<and> (\<exists>c2. job_cancel (ticks n jid (fst (program_run c jid prog creds backend params img))) jid = Inr c2
          \<and> (\<forall>m. map_sum id d_status (job_get (ticks m jid c2) jid) = Inr ''CANCELLED''))"
    by (rule cancel_pending)
  moreover have "get_job c' jid' = Inr j' \<and> j_class j' \<noteq> CancelableRuntimeJob \<longrightarrow>
          job_cancel c' jid' = Inl (AttributeError ''cancel'')"
    by (simp add: job_cancel_def job_cancel_method_def)
  ultimately show ?thesis using run by blast
qed

text \<open>
  C5 as stated fails: cancelling a pending job of the default profile raises
  \<open>AttributeError\<close>, and the job is not reported as \<open>CANCELLED\<close>.
\<close>

theorem default_job_cancel_counterexample:
  "map_sum id d_status
     (job_get (fst (program_run default_client ''job1'' ''prog'' some_credentials ''backend'' ''{}'' None))
        ''job1'') = Inr ''QUEUED''
   \<and> job_cancel (fst (program_run default_client ''job1'' ''prog'' some_credentials ''backend'' ''{}'' None))
        ''job1'' = Inl (AttributeError ''cancel'')"
  by (simp add: job_get_status job_cancel_def default_client_run default_job_def
      BaseFakeRuntimeJob_init_def job_cancel_method_def)

text \<open>Listing with the pending filter alone: a filter on the stored \<open>_status\<close>.\<close>

lemma py_slice_all:
  assumes "length xs \<le> n"
  shows "py_slice xs 0 (int n) = xs"
  using assms by (simp add: py_slice_def slice_index_def)

lemma jobs_get_pending_filter:
  "jobs_get c None None (Some p) None None None None =
     \<lparr>l_jobs = map to_dict
         (filter (\<lambda>j. j_status j \<in> set (if p then pending_statuses else returned_statuses))
            (map snd (c_jobs c))),
      l_count = length
         (filter (\<lambda>j. j_status j \<in> set (if p then pending_statuses else returned_statuses))
            (map snd (c_jobs c)))\<rparr>"
proof -
  let ?js = "filter (\<lambda>j. j_status j \<in> set (if p then pending_statuses else returned_statuses))
            (map snd (c_jobs c))"
  have "length ?js \<le> length (map snd (c_jobs c))"
    by (rule length_filter_le)
  then have "py_slice ?js 0 (int (length (c_jobs c))) = ?js"
    by (intro py_slice_all) simp
  then show ?thesis
    by (simp add: jobs_get_def Let_def truthy_def)
qed

text \<open>
  C8 does not hold of the code: a job that ended with the terminal status
  \<open>CANCELLED - RAN TOO LONG\<close> is listed neither among the pending jobs nor among the
  others, because that status is not in \<open>returned_statuses\<close>.
\<close>

theorem jobs_get_misses_ran_too_long:
  "map_sum id d_status
     (job_get (ticks 6 jid (fst (program_run (set_job_classes default_client [FailedRanTooLongRuntimeJob])
        jid prog creds backend params img))) jid) = Inr ''CANCELLED - RAN TOO LONG''
   \<and> jobs_get (ticks 6 jid (fst (program_run (set_job_classes default_client [FailedRanTooLongRuntimeJob])
        jid prog creds backend params img))) None None (Some False) None None None None =
       \<lparr>l_jobs = [], l_count = 0\<rparr>
   \<and> jobs_get (ticks 6 jid (fst (program_run (set_job_classes default_client [FailedRanTooLongRuntimeJob])
        jid prog creds backend params img))) None None (Some True) None None None None =
       \<lparr>l_jobs = [], l_count = 0\<rparr>"
  by (simp add: jobs_get_pending_filter job_get_status get_job_def)
     (simp add: ticks_def tick_def eval_nat_numeral program_run_def set_job_classes_def
       default_client_def BaseFakeRuntimeClient_init_def new_job_def Let_def
       BaseFakeRuntimeJob_init_def base_auto_progress_def thread_step_def
       pending_statuses_def returned_statuses_def)


text \<open>An instance: a cancelable job cancelled after three steps, and a default job.\<close>

theorem cancel_on_cancelable_job_witness:
  "c_job_classes (set_job_classes default_client [CancelableRuntimeJob]) = CancelableRuntimeJob # []
   \<and> c_final_status (set_job_classes default_client [CancelableRuntimeJob]) = None
   \<and> c_job_kwargs (set_job_classes default_client [CancelableRuntimeJob]) = []
   \<and> snd (program_run (set_job_classes default_client [CancelableRuntimeJob])
        ''job1'' ''prog'' some_credentials ''backend'' ''{}'' None) = Inr ''job1''
   \<and> (\<exists>c2. job_cancel (ticks 3 ''job1'' (fst (program_run (set_job_classes default_client [CancelableRuntimeJob])
          ''job1'' ''prog'' some_credentials ''backend'' ''{}'' None))) ''job1'' = Inr c2
         \<and> map_sum id d_status (job_get (ticks 2 ''job1'' c2) ''job1'') = Inr ''CANCELLED'')
   \<and> j_class (default_job ''job2'' ''prog'' some_credentials ''backend'' ''{}'' None) \<noteq> CancelableRuntimeJob
   \<and> job_cancel (fst (program_run default_client ''job2'' ''prog'' some_credentials ''backend'' ''{}'' None))
        ''job2'' = Inl (AttributeError ''cancel'')"
proof -
  let ?c = "set_job_classes default_client [CancelableRuntimeJob]"
  let ?d = "fst (program_run default_client ''job2'' ''prog'' some_credentials ''backend'' ''{}'' None)"
  let ?j = "default_job ''job2'' ''prog'' some_credentials ''backend'' ''{}'' None"
  have h1: "c_job_classes ?c = CancelableRuntimeJob # []"
    and h2: "c_final_status ?c = None" and h3: "c_job_kwargs ?c = []"
    by (simp_all add: set_job_classes_def default_client_def BaseFakeRuntimeClient_init_def)
  have g: "get_job ?d ''job2'' = Inr ?j"
    by (rule default_client_run)
  have k: "j_class ?j \<noteq> CancelableRuntimeJob"
    by (simp add: default_job_def BaseFakeRuntimeJob_init_def)
  note t = cancel_on_cancelable_job
    [OF h1 h2 h3, of "''job1''" "''prog''" some_credentials "''backend''" "''{}''" None 3
       ?d "''job2''" ?j]
  from t g k have "job_cancel ?d ''job2'' = Inl (AttributeError ''cancel'')"
    by blast
  moreover from t have "snd (program_run ?c ''job1'' ''prog'' some_credentials ''backend'' ''{}'' None) =
      Inr ''job1''"
    by blast
  moreover from t have "\<exists>c2. job_cancel (ticks 3 ''job1'' (fst (program_run ?c
          ''job1'' ''prog'' some_credentials ''backend'' ''{}'' None))) ''job1'' = Inr c2
         \<and> map_sum id d_status (job_get (ticks 2 ''job1'' c2) ''job1'') = Inr ''CANCELLED''"
    by blast
  ultimately show ?thesis using h1 h2 h3 k by blast
qed


end
